theory Spec2Isabelle
  imports Main "HOL-Library.AList"
begin

section \<open>Go values as the reflection code sees them\<close>

text \<open>
  The scope engine inspects its target through Go's \<^verbatim>\<open>reflect\<close> package. Types are
  finite trees (a recursive type is unrolled as far as a run looks at it); a struct type
  carries its name and, per declared field, the field's name, its tag (the key/value
  pairs that \<^verbatim>\<open>Tag.Get\<close> reads), whether it is anonymous, and its type.
  \<^verbatim>\<open>TimeT\<close> is \<^verbatim>\<open>time.Time\<close>; \<^verbatim>\<open>Basic\<close> stands for every type that is neither
  a struct, a slice nor a pointer.
\<close>

type_synonym tag = "(string \<times> string) list"

datatype gtype =
    Struct string "(string \<times> tag \<times> bool \<times> gtype) list"
  | TimeT
  | Slice gtype
  | Ptr gtype
  | Basic string

datatype gvalue =
    StructV string "((string \<times> tag \<times> bool) \<times> gvalue) list"
  | TimeV string
  | SliceV gtype "gvalue list"
  | PtrV gtype "gvalue option"
  | BasicV string string

text \<open>\<^verbatim>\<open>reflect.Value\<close>: the zero Value, or a value with its addressability flag.\<close>

datatype rvalue = Invalid | RV gvalue bool

datatype kind = KInvalid | KPtr | KStruct | KSlice | KOther

section \<open>Errors, connections and the Handle (\<^verbatim>\<open>DB\<close>)\<close>

text \<open>
  A Go \<^verbatim>\<open>error\<close> value. \<^verbatim>\<open>RecordNotFound\<close> is the package's sentinel, compared by
  identity in \<^verbatim>\<open>DB.err\<close>; every other error is given by its message.
\<close>

datatype error = RecordNotFound | ErrorString string

fun Error_msg :: "error \<Rightarrow> string" where
  "Error_msg RecordNotFound = ''record not found''"
| "Error_msg (ErrorString m) = m"

text \<open>
  What a \<^verbatim>\<open>sqlCommon\<close> interface value holds: an identity and which of the optional
  interfaces \<^verbatim>\<open>sqlDb\<close> (\<^verbatim>\<open>Begin\<close>) and \<^verbatim>\<open>sqlTx\<close> (\<^verbatim>\<open>Commit\<close>, \<^verbatim>\<open>Rollback\<close>)
  its dynamic type implements. \<^verbatim>\<open>sql_Tx n\<close> is the \<^verbatim>\<open>*sql.Tx\<close> that a successful
  \<^verbatim>\<open>Begin\<close> returns.
\<close>

datatype sqlCommon = Conn (conn_id: nat) (is_sqlDb: bool) (is_sqlTx: bool)

definition sql_Tx :: "nat \<Rightarrow> sqlCommon" where
  "sql_Tx n = Conn n False True"

type_synonym addr = nat

text \<open>
  The condition accumulator (\<^verbatim>\<open>search\<close>, declared elsewhere in the package): the
  table name and the back pointer \<^verbatim>\<open>db\<close> are what this code touches;
  \<open>conditions\<close> stands for the conditions accumulated so far. An accumulator is
  held by value where the code holds a pointer to it.
\<close>

record search =
  search_TableName :: string
  conditions :: "string list"
  search_db :: "addr option"

text \<open>
  The \<^verbatim>\<open>DB\<close> struct is declared elsewhere in the package; these are the fields that
  this code reads and writes. \<^verbatim>\<open>singularTable\<close> and \<^verbatim>\<open>tagIdentifier\<close> are read through
  \<^verbatim>\<open>parent\<close> only.
\<close>

record DB =
  db :: sqlCommon
  parent :: "addr option"
  logMode :: int
  Value :: "gvalue option"
  Error :: "error option"
  DB_values :: "string \<rightharpoonup> gvalue"
  DB_search :: "search option"
  RowsAffected :: int
  singularTable :: bool
  tagIdentifier :: string

text \<open>
  What leaves the program: lines handed to the logger (the flag says whether the call
  was started with \<^verbatim>\<open>go\<close>; its moment of delivery is not modelled, and the
  \<^verbatim>\<open>fileWithLineNum()\<close> argument is left out), and the calls made on connections.
\<close>

datatype event =
    Print bool "string list"
  | TxBegin sqlCommon
  | TxCommit sqlCommon
  | TxRollback sqlCommon

text \<open>
  The store: every \<^verbatim>\<open>*DB\<close> is an address into \<^verbatim>\<open>handles\<close>; \<^verbatim>\<open>brk\<close> is the next
  address that an allocation hands out.
\<close>

record world =
  handles :: "addr \<Rightarrow> DB"
  brk :: addr
  events :: "event list"

datatype panic = NilPointer | ZeroValue | BadCall | Duplicated string

definition upd :: "addr \<Rightarrow> (DB \<Rightarrow> DB) \<Rightarrow> world \<Rightarrow> world" where
  "upd s f w = w\<lparr>handles := (handles w)(s := f (handles w s))\<rparr>"

definition emit :: "event \<Rightarrow> world \<Rightarrow> world" where
  "emit e w = w\<lparr>events := events w @ [e]\<rparr>"

subsection \<open>Logging\<close>

text \<open>\<^verbatim>\<open>s.parent.logger.(logger).Print(v...)\<close>; a nil \<^verbatim>\<open>parent\<close> panics.\<close>

definition print :: "addr \<Rightarrow> bool \<Rightarrow> string list \<Rightarrow> world \<Rightarrow> panic + world" where
  "print s async v w =
     (case parent (handles w s) of
        None \<Rightarrow> Inl NilPointer
      | Some p \<Rightarrow> Inr (emit (Print async v) w))"

definition log :: "addr \<Rightarrow> string list \<Rightarrow> world \<Rightarrow> panic + world" where
  "log s v w =
     (if logMode (handles w s) = 2 then print s False (''log'' # v) w else Inr w)"

subsection \<open>\<^verbatim>\<open>DB.err\<close>\<close>

text \<open>\<^verbatim>\<open>regexp.MustCompile(`^sql: Scan error on column index`).MatchString\<close>\<close>

definition scan_error_match :: "string \<Rightarrow> bool" where
  "scan_error_match m =
     (take (length ''sql: Scan error on column index'') m = ''sql: Scan error on column index'')"

text \<open>
  \<^verbatim>\<open>go s.print(...)\<close> runs in its own goroutine: whatever happens there does not
  return to \<^verbatim>\<open>err\<close>, so the asynchronous branch always continues.
\<close>

definition err :: "addr \<Rightarrow> error option \<Rightarrow> world \<Rightarrow> panic + (error option \<times> world)" where
  "err s e w =
     (case e of
        None \<Rightarrow> Inr (None, w)
      | Some x \<Rightarrow>
          if x \<noteq> RecordNotFound then
            (case (if logMode (handles w s) = 0
                   then (case print s True [Error_msg x] w of Inl p \<Rightarrow> Inr w | Inr w' \<Rightarrow> Inr w')
                   else log s [Error_msg x] w) of
               Inl p \<Rightarrow> Inl p
             | Inr w1 \<Rightarrow>
                 if scan_error_match (Error_msg x) then Inr (None, w1)
                 else Inr (Some x, upd s (\<lambda>h. h\<lparr>Error := Some x\<rparr>) w1))
          else Inr (Some x, upd s (\<lambda>h. h\<lparr>Error := Some x\<rparr>) w))"

section \<open>Field metadata and the Scope\<close>

record relationship =
  JoinTable :: string
  ForeignKey :: string
  ForeignType :: string
  AssociationForeignKey :: string
  Kind :: string

text \<open>
  \<^verbatim>\<open>Field.Field\<close> is a \<^verbatim>\<open>reflect.Value\<close>; the storage cell it refers to is carried
  inside it. A \<^verbatim>\<open>*Field\<close> is represented by the record it points to.
\<close>

record Field =
  Name :: string
  DBName :: string
  Field_Field :: rvalue
  Tag :: tag
  Relationship :: "relationship option"
  IsNormal :: bool
  IsBlank :: bool
  IsIgnored :: bool
  IsPrimaryKey :: bool
  DefaultValue :: "string option"

text \<open>
  A \<^verbatim>\<open>map[string]*Field\<close> is a reference: the identity that \<^verbatim>\<open>make\<close> gave it,
  with its entries (keys distinct). \<^verbatim>\<open>Scope.db\<close> and the caches may be nil.
\<close>

type_synonym field_map = "nat \<times> (string \<times> Field) list"

record Scope =
  Scope_Value :: "gvalue option"
  indirectValue :: "rvalue option"
  Search :: "search option"
  Sql :: string
  SqlVars :: "gvalue list"
  Scope_db :: "addr option"
  skipLeft :: bool
  primaryKeyField :: "Field option"
  instanceId :: string
  Scope_fields :: "field_map option"

subsection \<open>The part of \<^verbatim>\<open>reflect\<close> that the scope uses\<close>

fun ValueOf :: "gvalue option \<Rightarrow> rvalue" where
  "ValueOf None = Invalid"
| "ValueOf (Some v) = RV v False"

fun Indirect :: "rvalue \<Rightarrow> rvalue" where
  "Indirect (RV (PtrV t None) a) = Invalid"
| "Indirect (RV (PtrV t (Some v)) a) = RV v True"
| "Indirect v = v"

fun Kind_of :: "rvalue \<Rightarrow> kind" where
  "Kind_of Invalid = KInvalid"
| "Kind_of (RV (StructV n fs) a) = KStruct"
| "Kind_of (RV (TimeV t) a) = KStruct"
| "Kind_of (RV (SliceV t vs) a) = KSlice"
| "Kind_of (RV (PtrV t v) a) = KPtr"
| "Kind_of (RV (BasicV t x) a) = KOther"

fun IsValid :: "rvalue \<Rightarrow> bool" where
  "IsValid Invalid = False"
| "IsValid (RV v a) = True"

fun CanAddr :: "rvalue \<Rightarrow> bool" where
  "CanAddr Invalid = False"
| "CanAddr (RV v a) = a"

subsection \<open>Scope basics\<close>

definition IndirectValue :: "Scope \<Rightarrow> rvalue \<times> Scope" where
  "IndirectValue scope =
     (case indirectValue scope of
        None \<Rightarrow>
          (let value = Indirect (ValueOf (Scope_Value scope))
           in (value, scope\<lparr>indirectValue := Some value\<rparr>))
      | Some v \<Rightarrow> (v, scope))"

definition NewScope :: "addr \<Rightarrow> gvalue option \<Rightarrow> world \<Rightarrow> Scope \<times> world" where
  "NewScope d value w =
     (\<lparr>Scope_Value = value, indirectValue = None, Search = DB_search (handles w d),
       Sql = [], SqlVars = [], Scope_db = Some d, skipLeft = False,
       primaryKeyField = None, instanceId = [], Scope_fields = None\<rparr>,
      upd d (\<lambda>h. h\<lparr>Value := value\<rparr>) w)"

definition empty_search :: search where
  "empty_search = \<lparr>search_TableName = [], conditions = [], search_db = None\<rparr>"

definition New :: "Scope \<Rightarrow> gvalue option \<Rightarrow> Scope" where
  "New scope value =
     \<lparr>Scope_Value = value, indirectValue = None, Search = Some empty_search,
      Sql = [], SqlVars = [], Scope_db = Scope_db scope, skipLeft = False,
      primaryKeyField = None, instanceId = [], Scope_fields = None\<rparr>"

definition DB_of :: "Scope \<Rightarrow> world \<Rightarrow> panic + sqlCommon" where
  "DB_of scope w =
     (case Scope_db scope of None \<Rightarrow> Inl NilPointer | Some d \<Rightarrow> Inr (db (handles w d)))"

definition Err :: "Scope \<Rightarrow> error option \<Rightarrow> world \<Rightarrow> panic + (error option \<times> world)" where
  "Err scope e w =
     (case e of
        None \<Rightarrow> Inr (e, w)
      | Some x \<Rightarrow>
          (case Scope_db scope of
             None \<Rightarrow> Inl NilPointer
           | Some d \<Rightarrow> (case err d e w of Inl p \<Rightarrow> Inl p | Inr (r, w') \<Rightarrow> Inr (e, w'))))"

definition HasError :: "Scope \<Rightarrow> world \<Rightarrow> panic + bool" where
  "HasError scope w =
     (case Scope_db scope of
        None \<Rightarrow> Inl NilPointer
      | Some d \<Rightarrow> Inr (Error (handles w d) \<noteq> None))"

subsection \<open>Settings and the instance identifier\<close>

text \<open>
  Modelled from the spec: \<^verbatim>\<open>DB.InstantSet\<close> and \<^verbatim>\<open>DB.Get\<close> are declared elsewhere in
  the package. The Handle carries "a mapping of named settings"; \<^verbatim>\<open>InstantSet\<close>
  records a setting in the Handle's own mapping and \<^verbatim>\<open>Get\<close> reads it back with its
  presence.
\<close>

definition InstantSet :: "addr \<Rightarrow> string \<Rightarrow> gvalue \<Rightarrow> world \<Rightarrow> world" where
  "InstantSet s name value w = upd s (\<lambda>h. h\<lparr>DB_values := (DB_values h)(name \<mapsto> value)\<rparr>) w"

definition Get :: "addr \<Rightarrow> string \<Rightarrow> world \<Rightarrow> gvalue option" where
  "Get s name w = DB_values (handles w s) name"

definition Scope_Set :: "string \<Rightarrow> gvalue \<Rightarrow> Scope \<Rightarrow> world \<Rightarrow> panic + (Scope \<times> world)" where
  "Scope_Set name value scope w =
     (case Scope_db scope of
        None \<Rightarrow> Inl NilPointer
      | Some d \<Rightarrow> Inr (scope, InstantSet d name value w))"

definition Scope_Get :: "string \<Rightarrow> Scope \<Rightarrow> world \<Rightarrow> panic + gvalue option" where
  "Scope_Get name scope w =
     (case Scope_db scope of
        None \<Rightarrow> Inl NilPointer
      | Some d \<Rightarrow> Inr (Get d name w))"

text \<open>
  \<^verbatim>\<open>fmt.Sprintf("%v", &scope)\<close> prints the address of a variable that escapes to the
  heap: \<^verbatim>\<open>0x\<close> and the address in lower-case hexadecimal.
\<close>

definition hex_digit :: "nat \<Rightarrow> char" where
  "hex_digit n = ''0123456789abcdef'' ! (n mod 16)"

function hex :: "nat \<Rightarrow> string" where
  "hex n = (if n < 16 then [hex_digit n] else hex (n div 16) @ [hex_digit n])"
  by pat_completeness auto
termination
  by (relation "measure (\<lambda>n. n)") auto

declare hex.simps [simp del]

definition fmt_ptr :: "addr \<Rightarrow> string" where
  "fmt_ptr a = ''0x'' @ hex a"

definition InstanceId :: "Scope \<Rightarrow> world \<Rightarrow> string \<times> Scope \<times> world" where
  "InstanceId scope w =
     (if instanceId scope = []
      then (let i = fmt_ptr (brk w)
            in (i, scope\<lparr>instanceId := i\<rparr>, w\<lparr>brk := Suc (brk w)\<rparr>))
      else (instanceId scope, scope, w))"

definition InstanceSet :: "string \<Rightarrow> gvalue \<Rightarrow> Scope \<Rightarrow> world \<Rightarrow> panic + (Scope \<times> world)" where
  "InstanceSet name value scope w =
     (case InstanceId scope w of (i, scope1, w1) \<Rightarrow> Scope_Set (name @ i) value scope1 w1)"

definition InstanceGet :: "string \<Rightarrow> Scope \<Rightarrow> world \<Rightarrow> panic + (gvalue option \<times> Scope \<times> world)" where
  "InstanceGet name scope w =
     (case InstanceId scope w of
        (i, scope1, w1) \<Rightarrow>
          (case Scope_Get (name @ i) scope1 w1 of
             Inl p \<Rightarrow> Inl p
           | Inr v \<Rightarrow> Inr (v, scope1, w1)))"

subsection \<open>Transactions\<close>

definition true_v :: gvalue where
  "true_v = BasicV ''bool'' ''true''"

text \<open>
  \<^verbatim>\<open>tx_result\<close> is the driver's answer to \<^verbatim>\<open>db.Begin()\<close>: an error, or the identity
  of the new \<^verbatim>\<open>*sql.Tx\<close>.
\<close>

definition Begin :: "(error + nat) \<Rightarrow> Scope \<Rightarrow> world \<Rightarrow> panic + (Scope \<times> world)" where
  "Begin tx_result scope w =
     (case DB_of scope w of
        Inl p \<Rightarrow> Inl p
      | Inr c \<Rightarrow>
          if is_sqlDb c then
            (case tx_result of
               Inr tx \<Rightarrow>
                 (case Scope_db scope of
                    None \<Rightarrow> Inl NilPointer
                  | Some d \<Rightarrow>
                      InstanceSet ''gorm:started_transaction'' true_v scope
                        (upd d (\<lambda>h. h\<lparr>db := sql_Tx tx\<rparr>) (emit (TxBegin c) w)))
             | Inl e \<Rightarrow> Inr (scope, emit (TxBegin c) w))
          else Inr (scope, w))"

definition CommitOrRollback :: "Scope \<Rightarrow> world \<Rightarrow> panic + (Scope \<times> world)" where
  "CommitOrRollback scope w =
     (case InstanceGet ''gorm:started_transaction'' scope w of
        Inl p \<Rightarrow> Inl p
      | Inr (None, scope1, w1) \<Rightarrow> Inr (scope1, w1)
      | Inr (Some v, scope1, w1) \<Rightarrow>
          (case Scope_db scope1 of
             None \<Rightarrow> Inl NilPointer
           | Some d \<Rightarrow>
               let c = db (handles w1 d) in
               if is_sqlTx c then
                 (case HasError scope1 w1 of
                    Inl p \<Rightarrow> Inl p
                  | Inr failed \<Rightarrow>
                      let w2 = (if failed then emit (TxRollback c) w1 else emit (TxCommit c) w1)
                      in (case parent (handles w2 d) of
                            None \<Rightarrow> Inl NilPointer
                          | Some p \<Rightarrow> Inr (scope1, upd d (\<lambda>h. h\<lparr>db := db (handles w2 p)\<rparr>) w2)))
               else Inr (scope1, w1)))"

section \<open>Deriving Handles\<close>

text \<open>
  Modelled from the spec: \<^verbatim>\<open>search.clone()\<close> is declared elsewhere in the package;
  the condition accumulator is "deep-cloned on derivation", so the clone is an equal
  accumulator of its own.
\<close>

definition search_clone :: "search \<Rightarrow> search" where
  "search_clone s = s"

text \<open>
  \<^verbatim>\<open>clone\<close> allocates the new \<^verbatim>\<open>DB\<close>; the fields its composite literal does not
  name are zero.
\<close>

definition clone :: "addr \<Rightarrow> world \<Rightarrow> addr \<times> world" where
  "clone s w =
     (let h = handles w s;
          a = brk w;
          d = \<lparr>db = db h, parent = parent h, logMode = logMode h, Value = Value h,
               Error = Error h, DB_values = DB_values h,
               DB_search = Some ((case DB_search h of
                                    None \<Rightarrow> empty_search
                                  | Some x \<Rightarrow> search_clone x)\<lparr>search_db := Some a\<rparr>),
               RowsAffected = 0, singularTable = False, tagIdentifier = []\<rparr>
      in (a, w\<lparr>handles := (handles w)(a := d), brk := Suc a\<rparr>))"

definition new :: "addr \<Rightarrow> world \<Rightarrow> addr \<times> world" where
  "new s w = clone s (upd s (\<lambda>h. h\<lparr>DB_search := None\<rparr>) w)"

definition NewDB :: "Scope \<Rightarrow> world \<Rightarrow> panic + (addr \<times> world)" where
  "NewDB scope w =
     (case Scope_db scope of None \<Rightarrow> Inl NilPointer | Some d \<Rightarrow> Inr (new d w))"

section \<open>Hook dispatch\<close>

text \<open>
  A method found by \<^verbatim>\<open>MethodByName\<close>, already bound to its receiver: one constructor
  per case of the type switch in \<^verbatim>\<open>CallMethod\<close>, \<^verbatim>\<open>FOther\<close> for any other
  signature. The body is user code: it is taken as a function on what it can reach
  (the Scope or Handle it is given, and the store); it returns, and it does not resize
  the collection being traversed. The methods of a value are given by \<open>ms\<close>.
\<close>

datatype hook =
    F0 "world \<Rightarrow> world"
  | FScope "Scope \<Rightarrow> world \<Rightarrow> Scope \<times> world"
  | FDB "addr \<Rightarrow> world \<Rightarrow> world"
  | F0E "world \<Rightarrow> error option \<times> world"
  | FScopeE "Scope \<Rightarrow> world \<Rightarrow> error option \<times> Scope \<times> world"
  | FDBE "addr \<Rightarrow> world \<Rightarrow> error option \<times> world"
  | FOther

type_synonym methods = "gvalue \<Rightarrow> string \<Rightarrow> hook option"

text \<open>
  The closure \<^verbatim>\<open>call\<close> of \<^verbatim>\<open>CallMethod\<close>. Besides the new state it reports the
  receivers whose method it invoked, in order (a record kept beside the state, out of
  the reach of the hooks).
\<close>

definition latch :: "gvalue list \<Rightarrow> Scope \<Rightarrow> error option \<Rightarrow> world \<Rightarrow>
    panic + (gvalue list \<times> Scope \<times> world)" where
  "latch invoked scope e w =
     (case Err scope e w of Inl p \<Rightarrow> Inl p | Inr (r, w') \<Rightarrow> Inr (invoked, scope, w'))"

definition call :: "methods \<Rightarrow> string \<Rightarrow> gvalue \<Rightarrow> Scope \<Rightarrow> world \<Rightarrow>
    panic + (gvalue list \<times> Scope \<times> world)" where
  "call ms name value scope w =
     (case ms value name of
        None \<Rightarrow> Inr ([], scope, w)
      | Some fm \<Rightarrow>
          (case fm of
             F0 f \<Rightarrow> Inr ([value], scope, f w)
           | FScope f \<Rightarrow> (case f scope w of (scope1, w1) \<Rightarrow> Inr ([value], scope1, w1))
           | FDB f \<Rightarrow>
               (case NewDB scope w of
                  Inl p \<Rightarrow> Inl p
                | Inr (a, w1) \<Rightarrow> Inr ([value], scope, f a w1))
           | F0E f \<Rightarrow> (case f w of (e, w1) \<Rightarrow> latch [value] scope e w1)
           | FScopeE f \<Rightarrow> (case f scope w of (e, scope1, w1) \<Rightarrow> latch [value] scope1 e w1)
           | FDBE f \<Rightarrow>
               (case NewDB scope w of
                  Inl p \<Rightarrow> Inl p
                | Inr (a, w1) \<Rightarrow> (case f a w1 of (e, w2) \<Rightarrow> latch [value] scope e w2))
           | FOther \<Rightarrow>
               latch [] scope (Some (ErrorString (''unsupported function '' @ name))) w))"

text \<open>The loop over \<^verbatim>\<open>values.Index(i).Addr().Interface()\<close>, \<open>i\<close> from 0.\<close>

fun call_each :: "methods \<Rightarrow> string \<Rightarrow> gvalue list \<Rightarrow> Scope \<Rightarrow> world \<Rightarrow>
    panic + (gvalue list \<times> Scope \<times> world)" where
  "call_each ms name [] scope w = Inr ([], scope, w)"
| "call_each ms name (v # vs) scope w =
     (case call ms name v scope w of
        Inl p \<Rightarrow> Inl p
      | Inr (c1, scope1, w1) \<Rightarrow>
          (case call_each ms name vs scope1 w1 of
             Inl p \<Rightarrow> Inl p
           | Inr (c2, scope2, w2) \<Rightarrow> Inr (c1 @ c2, scope2, w2)))"

text \<open>The addresses of the elements of a slice, as interface values.\<close>

fun elem_addrs :: "rvalue \<Rightarrow> gvalue list" where
  "elem_addrs (RV (SliceV t vs) a) = map (\<lambda>v. PtrV t (Some v)) vs"
| "elem_addrs v = []"

definition CallMethod :: "methods \<Rightarrow> string \<Rightarrow> Scope \<Rightarrow> world \<Rightarrow>
    panic + (gvalue list \<times> Scope \<times> world)" where
  "CallMethod ms name scope w =
     (case Scope_Value scope of
        None \<Rightarrow> Inr ([], scope, w)
      | Some value \<Rightarrow>
          (case IndirectValue scope of
             (values, scope1) \<Rightarrow>
               if Kind_of values = KSlice
               then call_each ms name (elem_addrs values) scope1 w
               else call ms name value scope1 w))"

text \<open>The values on which \<^verbatim>\<open>CallMethod\<close> looks the method up.\<close>

definition receivers :: "Scope \<Rightarrow> gvalue list" where
  "receivers scope =
     (case Scope_Value scope of
        None \<Rightarrow> []
      | Some value \<Rightarrow>
          if Kind_of (fst (IndirectValue scope)) = KSlice
          then elem_addrs (fst (IndirectValue scope)) else [value])"


section \<open>Types of values, zero values\<close>

fun type_of :: "gvalue \<Rightarrow> gtype" where
  "type_of (StructV n fs) = Struct n (map (\<lambda>f. (fst (fst f), fst (snd (fst f)), snd (snd (fst f)), type_of (snd f))) fs)"
| "type_of (TimeV t) = TimeT"
| "type_of (SliceV t vs) = Slice t"
| "type_of (PtrV t v) = Ptr t"
| "type_of (BasicV t x) = Basic t"

text \<open>
  \<^verbatim>\<open>reflect.New(t).Elem()\<close> holds the zero value of \<open>t\<close>: zero fields, a nil slice,
  a nil pointer; the empty payload stands for the zero of a basic type and of a time.
\<close>

fun zero :: "gtype \<Rightarrow> gvalue" where
  "zero (Struct n fs) = StructV n (map (\<lambda>f. ((fst f, fst (snd f), fst (snd (snd f))), zero (snd (snd (snd f))))) fs)"
| "zero TimeT = TimeV []"
| "zero (Slice t) = SliceV t []"
| "zero (Ptr t) = PtrV t None"
| "zero (Basic t) = BasicV t []"

fun Type_Kind :: "gtype \<Rightarrow> kind" where
  "Type_Kind (Struct n fs) = KStruct"
| "Type_Kind TimeT = KStruct"
| "Type_Kind (Slice t) = KSlice"
| "Type_Kind (Ptr t) = KPtr"
| "Type_Kind (Basic t) = KOther"

text \<open>\<^verbatim>\<open>Type.Name()\<close>: the name of a defined type, empty for a slice or pointer type.\<close>

fun Type_Name :: "gtype \<Rightarrow> string" where
  "Type_Name (Struct n fs) = n"
| "Type_Name TimeT = ''Time''"
| "Type_Name (Slice t) = []"
| "Type_Name (Ptr t) = []"
| "Type_Name (Basic t) = t"

text \<open>\<^verbatim>\<open>Type.Elem()\<close> panics on a type that has no element type.\<close>

fun Type_Elem :: "gtype \<Rightarrow> panic + gtype" where
  "Type_Elem (Slice t) = Inr t"
| "Type_Elem (Ptr t) = Inr t"
| "Type_Elem t = Inl BadCall"

section \<open>What the code takes from outside\<close>

text \<open>
  The helpers \<^verbatim>\<open>ToSnake\<close>, \<^verbatim>\<open>SnakeToUpperCamel\<close>, \<^verbatim>\<open>parseTagSetting\<close> and
  \<^verbatim>\<open>isBlank\<close> are declared elsewhere in the package and are taken as they come.
  So is what the Go runtime decides: the order in which \<^verbatim>\<open>range\<close> visits the entries
  of a map (\<open>range_order\<close>), whether a struct type has a field of a given name that is
  promoted from an embedded struct (\<open>promoted_field\<close>), conversion between types, and
  the \<^verbatim>\<open>Scan\<close> method of the types whose pointer implements \<^verbatim>\<open>sql.Scanner\<close>: from
  the content of the receiver and the argument to the new content and the result.
\<close>

record env =
  ToSnake :: "string \<Rightarrow> string"
  SnakeToUpperCamel :: "string \<Rightarrow> string"
  parseTagSetting :: "string \<Rightarrow> (string \<rightharpoonup> string)"
  isBlank :: "rvalue \<Rightarrow> bool"
  range_order :: "(string \<times> Field) list \<Rightarrow> (string \<times> Field) list"
  promoted_field :: "gtype \<Rightarrow> string \<Rightarrow> bool"
  ConvertibleTo :: "gtype \<Rightarrow> gtype \<Rightarrow> bool"
  Convert :: "gvalue \<Rightarrow> gtype \<Rightarrow> gvalue"
  Scanner :: "gtype \<Rightarrow> (gvalue \<Rightarrow> gvalue option \<Rightarrow> gvalue \<times> error option) option"

section \<open>Table names\<close>

text \<open>
  The two regular expressions forms of \<^verbatim>\<open>pluralMapKeys\<close>: a literal before \<^verbatim>\<open>$\<close>,
  and \<^verbatim>\<open>([^s])s?$\<close>. \<open>find_match\<close> gives the start of the leftmost match and the
  text of group 1; a match always runs to the end of the text, so there is at most one.
\<close>

definition pluralMapKeys :: "string list" where
  "pluralMapKeys = [''ch$'', ''ss$'', ''sh$'', ''day$'', ''y$'', ''x$'', ''([^s])s?$'']"

definition pluralMapValues :: "string list" where
  "pluralMapValues = [''ches'', ''sses'', ''shes'', ''days'', ''ies'', ''xes'', ''${1}s'']"

definition ends_with :: "string \<Rightarrow> string \<Rightarrow> bool" where
  "ends_with s l = (length l \<le> length s \<and> drop (length s - length l) s = l)"

definition find_match :: "string \<Rightarrow> string \<Rightarrow> (nat \<times> string) option" where
  "find_match re s =
     (if re = ''([^s])s?$'' then
        (if 2 \<le> length s \<and> s ! (length s - 2) \<noteq> CHR ''s'' \<and> s ! (length s - 1) = CHR ''s''
         then Some (length s - 2, [s ! (length s - 2)])
         else if 1 \<le> length s \<and> s ! (length s - 1) \<noteq> CHR ''s''
         then Some (length s - 1, [s ! (length s - 1)])
         else None)
      else
        (if ends_with s (butlast re) then Some (length s - length (butlast re), []) else None))"

definition MatchString :: "string \<Rightarrow> string \<Rightarrow> bool" where
  "MatchString re s = (find_match re s \<noteq> None)"

text \<open>A replacement template: \<^verbatim>\<open>${1}\<close> at its head stands for group 1.\<close>

definition expand :: "string \<Rightarrow> string \<Rightarrow> string" where
  "expand repl g1 = (if take 4 repl = ''${1}'' then g1 @ drop 4 repl else repl)"

definition ReplaceAllString :: "string \<Rightarrow> string \<Rightarrow> string \<Rightarrow> string" where
  "ReplaceAllString re s repl =
     (case find_match re s of
        None \<Rightarrow> s
      | Some (i, g1) \<Rightarrow> take i s @ expand repl g1)"

text \<open>The loop over \<^verbatim>\<open>pluralMapKeys\<close>, with \<^verbatim>\<open>pluralMapValues[index]\<close> beside each key.\<close>

fun plural_loop :: "string list \<Rightarrow> string list \<Rightarrow> string \<Rightarrow> string option" where
  "plural_loop (reg # keys) (v # vals) str =
     (if MatchString reg str then Some (ReplaceAllString reg str v)
      else plural_loop keys vals str)"
| "plural_loop keys vals str = None"

definition pluralize :: "string \<Rightarrow> string" where
  "pluralize str =
     (case plural_loop pluralMapKeys pluralMapValues str of Some r \<Rightarrow> r | None \<Rightarrow> str)"

text \<open>
  The method \<^verbatim>\<open>TableName\<close> of a value, if it has one: what calling it without
  arguments gives (a string, a first result that is no string, no result), or that it
  wants arguments, so that \<^verbatim>\<open>Call\<close> panics.
\<close>

datatype tn_method = TN_string string | TN_other | TN_none | TN_args

fun rv_Type :: "rvalue \<Rightarrow> panic + gtype" where
  "rv_Type Invalid = Inl ZeroValue"
| "rv_Type (RV v a) = Inr (type_of v)"

text \<open>The value whose type names the table: for a slice, a zero element.\<close>

definition table_data :: "rvalue \<Rightarrow> panic + rvalue" where
  "table_data data =
     (if Kind_of data = KSlice then
        (case rv_Type data of
           Inl p \<Rightarrow> Inl p
         | Inr t \<Rightarrow>
             (case Type_Elem t of
                Inl p \<Rightarrow> Inl p
              | Inr elem \<Rightarrow>
                  if Type_Kind elem = KPtr
                  then (case Type_Elem elem of
                          Inl p \<Rightarrow> Inl p
                        | Inr elem' \<Rightarrow> Inr (RV (zero elem') True))
                  else Inr (RV (zero elem) True)))
      else Inr data)"

definition TableName :: "env \<Rightarrow> (gvalue \<Rightarrow> tn_method option) \<Rightarrow> Scope \<Rightarrow> world \<Rightarrow>
    panic + (string \<times> Scope \<times> world)" where
  "TableName en tn scope w =
     (if Search scope \<noteq> None \<and> 0 < length (search_TableName (the (Search scope)))
      then Inr (search_TableName (the (Search scope)), scope, w)
      else
        (case Scope_Value scope of
           None \<Rightarrow>
             (case Err scope (Some (ErrorString (''can'' @ [CHR 0x27] @ ''t get table name''))) w of
                Inl p \<Rightarrow> Inl p
              | Inr (r, w1) \<Rightarrow> Inr ([], scope, w1))
         | Some value \<Rightarrow>
             (case IndirectValue scope of
                (data0, scope1) \<Rightarrow>
                  (case table_data data0 of
                     Inl p \<Rightarrow> Inl p
                   | Inr Invalid \<Rightarrow> Inl ZeroValue
                   | Inr (RV dv a) \<Rightarrow>
                       (case tn dv of
                          Some TN_args \<Rightarrow> Inl BadCall
                        | Some (TN_string result) \<Rightarrow> Inr (result, scope1, w)
                        | _ \<Rightarrow>
                            let str = ToSnake en (Type_Name (type_of dv)) in
                            (case Scope_db scope1 of
                               None \<Rightarrow> Inr (pluralize str, scope1, w)
                             | Some d \<Rightarrow>
                                 (case parent (handles w d) of
                                    None \<Rightarrow> Inl NilPointer
                                  | Some p \<Rightarrow>
                                      if \<not> singularTable (handles w p)
                                      then Inr (pluralize str, scope1, w)
                                      else Inr (str, scope1, w))))))))"

section \<open>Setting a field\<close>

text \<open>
  The argument of \<^verbatim>\<open>Field.Set\<close> is an \<^verbatim>\<open>interface{}\<close>: it holds a
  \<^verbatim>\<open>reflect.Value\<close>, or anything else (nil included).
\<close>

datatype arg = Plain "gvalue option" | Reflected rvalue

fun Interface :: "rvalue \<Rightarrow> panic + gvalue" where
  "Interface Invalid = Inl ZeroValue"
| "Interface (RV v a) = Inr v"

definition Field_Set :: "env \<Rightarrow> Field \<Rightarrow> arg \<Rightarrow> panic + (error option \<times> Field)" where
  "Field_Set en field value0 =
     (case Field_Field field of
        Invalid \<Rightarrow> Inr (Some (ErrorString ''field value not valid''), field)
      | RV cell a \<Rightarrow>
          if \<not> a then Inr (Some (ErrorString ''field value not addressable''), field)
          else
            (case (case value0 of
                     Reflected rvalue \<Rightarrow> map_sum id Some (Interface rvalue)
                   | Plain v \<Rightarrow> Inr v) of
               Inl p \<Rightarrow> Inl p
             | Inr value \<Rightarrow>
                 (case Scanner en (type_of cell) of
                    Some scan \<Rightarrow>
                      let cell' = fst (scan cell value);
                          f = RV cell' a
                      in Inr (None, field\<lparr>Field_Field := f, IsBlank := isBlank en f\<rparr>)
                  | None \<Rightarrow>
                      (case value of
                         None \<Rightarrow> Inl NilPointer
                       | Some v \<Rightarrow>
                           if ConvertibleTo en (type_of v) (type_of cell)
                           then let f = RV (Convert en v (type_of cell)) a
                                in Inr (None, field\<lparr>Field_Field := f, IsBlank := isBlank en f\<rparr>)
                           else Inr (Some (ErrorString ''could not convert argument''), field)))))"

section \<open>Field discovery\<close>

text \<open>\<^verbatim>\<open>Tag.Get\<close>: the value under a key of the tag, empty when the key is absent.\<close>

definition Tag_Get :: "tag \<Rightarrow> string \<Rightarrow> string" where
  "Tag_Get t k = (case map_of t k of None \<Rightarrow> [] | Some v \<Rightarrow> v)"

text \<open>\<^verbatim>\<open>ast.IsExported\<close>: the name begins with an upper-case letter.\<close>

definition IsExported :: "string \<Rightarrow> bool" where
  "IsExported name =
     (case name of [] \<Rightarrow> False | c # cs \<Rightarrow> 65 \<le> (of_char c :: nat) \<and> (of_char c :: nat) \<le> 90)"

text \<open>
  \<^verbatim>\<open>Value.FieldByName\<close> on a struct, for a declared field (the only use the code
  makes of it on a live value); the zero Value when there is none; a panic on what is
  no struct. \<open>has_field\<close> is \<^verbatim>\<open>reflect.New(t).Elem().FieldByName(name).IsValid()\<close>.
\<close>

fun FieldByName :: "rvalue \<Rightarrow> string \<Rightarrow> panic + rvalue" where
  "FieldByName (RV (StructV n fs) a) name =
     (case find (\<lambda>f. fst (fst f) = name) fs of
        None \<Rightarrow> Inr Invalid
      | Some f \<Rightarrow> Inr (RV (snd f) a))"
| "FieldByName (RV (TimeV t) a) name = Inr Invalid"
| "FieldByName v name = Inl BadCall"

definition has_field :: "env \<Rightarrow> gtype \<Rightarrow> string \<Rightarrow> bool" where
  "has_field en t name =
     ((case t of Struct n fs \<Rightarrow> name \<in> set (map fst fs) | _ \<Rightarrow> False) \<or> promoted_field en t name)"

fun struct_fields :: "gtype \<Rightarrow> (string \<times> tag \<times> bool \<times> gtype) list" where
  "struct_fields (Struct n fs) = fs"
| "struct_fields t = []"

text \<open>Reading a \<^verbatim>\<open>map[string]string\<close>: the empty string for a missing key.\<close>

definition setting :: "(string \<rightharpoonup> string) \<Rightarrow> string \<Rightarrow> string" where
  "setting m k = (case m k of None \<Rightarrow> [] | Some v \<Rightarrow> v)"

text \<open>
  The body of the inner loop of \<^verbatim>\<open>Fields\<close>: enter one field under its column name. A
  second field for a column replaces an ignored one; otherwise the code panics
  (\<open>tname\<close> is the type name that the message carries).
\<close>

definition insert_field :: "string \<Rightarrow> Field \<Rightarrow> (string \<times> Field) list \<times> bool \<Rightarrow>
    panic + ((string \<times> Field) list \<times> bool)" where
  "insert_field tname field acc =
     (case acc of
        (flds, hasPrimaryKey) \<Rightarrow>
          let hasPrimaryKey' = (hasPrimaryKey \<or> IsPrimaryKey field) in
          (case map_of flds (DBName field) of
             Some value \<Rightarrow>
               if IsIgnored value
               then Inr (AList.update (DBName field) field flds, hasPrimaryKey')
               else Inl (Duplicated tname)
           | None \<Rightarrow> Inr (AList.update (DBName field) field flds, hasPrimaryKey')))"

fun insert_fields :: "string \<Rightarrow> Field list \<Rightarrow> (string \<times> Field) list \<times> bool \<Rightarrow>
    panic + ((string \<times> Field) list \<times> bool)" where
  "insert_fields tname [] acc = Inr acc"
| "insert_fields tname (field # rest) acc =
     (case insert_field tname field acc of
        Inl p \<Rightarrow> Inl p
      | Inr acc' \<Rightarrow> insert_fields tname rest acc')"

text \<open>The size of the type of the Scope's target: what the recursion below descends on.\<close>

definition tsize :: "Scope \<Rightarrow> nat" where
  "tsize scope = (case fst (IndirectValue scope) of Invalid \<Rightarrow> 0 | RV v a \<Rightarrow> size (type_of v))"

text \<open>
  \<^verbatim>\<open>Fields\<close>, the loop over the declared fields of the target's type
  (\<open>fields_loop\<close>), \<^verbatim>\<open>fieldFromStruct\<close> and \<^verbatim>\<open>HasColumn\<close> call each other.
  \<^verbatim>\<open>Fields\<close> memoises the indirect value before the loop, so the calls of
  \<^verbatim>\<open>scope.IndirectValue()\<close> further down read the memo and the Scope is passed down
  as it is. Every \<^verbatim>\<open>map[string]*Field{}\<close> takes its identity from \<^verbatim>\<open>brk\<close>.
  The first argument of \<^verbatim>\<open>Fields\<close> is \<^verbatim>\<open>withRelation\<close>, that is
  \<^verbatim>\<open>len(noRelations) == 0\<close>.
\<close>

function Fields :: "env \<Rightarrow> bool \<Rightarrow> Scope \<Rightarrow> world \<Rightarrow> panic + (field_map \<times> Scope \<times> world)"
  and fields_loop :: "env \<Rightarrow> bool \<Rightarrow> Scope \<Rightarrow> (string \<times> tag \<times> bool \<times> gtype) list \<Rightarrow>
        (string \<times> Field) list \<times> bool \<Rightarrow> world \<Rightarrow>
        panic + (((string \<times> Field) list \<times> bool) \<times> world)"
  and fieldFromStruct :: "env \<Rightarrow> Scope \<Rightarrow> string \<times> tag \<times> bool \<times> gtype \<Rightarrow> bool \<Rightarrow> world \<Rightarrow>
        panic + (Field list \<times> world)"
  and HasColumn :: "env \<Rightarrow> Scope \<Rightarrow> string \<Rightarrow> world \<Rightarrow> panic + (bool \<times> world)"
where
  "Fields en withRelation scope w =
     (if withRelation \<and> Scope_fields scope \<noteq> None
      then Inr (the (Scope_fields scope), scope, w)
      else
        (case IndirectValue scope of
           (iv, scope1) \<Rightarrow>
             (case (if IsValid iv \<and> Kind_of iv = KStruct
                    then (case rv_Type iv of
                            Inl p \<Rightarrow> Inl p
                          | Inr scopeTyp \<Rightarrow>
                              (case fields_loop en withRelation scope1 (struct_fields scopeTyp)
                                      ([], False) (w\<lparr>brk := Suc (brk w)\<rparr>) of
                                 Inl p \<Rightarrow> Inl p
                               | Inr ((flds, hasPrimaryKey), w1) \<Rightarrow>
                                   if \<not> hasPrimaryKey
                                   then (case map_of flds ''id'' of
                                           Some field \<Rightarrow>
                                             Inr (AList.update ''id'' (field\<lparr>IsPrimaryKey := True\<rparr>) flds, w1)
                                         | None \<Rightarrow> Inr (flds, w1))
                                   else Inr (flds, w1)))
                    else Inr ([], w\<lparr>brk := Suc (brk w)\<rparr>)) of
                Inl p \<Rightarrow> Inl p
              | Inr (flds, w2) \<Rightarrow>
                  if withRelation
                  then Inr ((brk w, flds), scope1\<lparr>Scope_fields := Some (brk w, flds)\<rparr>, w2)
                  else Inr ((brk w, flds), scope1, w2))))"
| "fields_loop en withRelation scope [] acc w = Inr (acc, w)"
| "fields_loop en withRelation scope (fieldStruct # rest) acc w =
     (if \<not> IsExported (fst fieldStruct)
      then fields_loop en withRelation scope rest acc w
      else
        (case fieldFromStruct en scope fieldStruct withRelation w of
           Inl p \<Rightarrow> Inl p
         | Inr (fl, w1) \<Rightarrow>
             (case insert_fields (case rv_Type (fst (IndirectValue scope)) of
                                    Inl p \<Rightarrow> [] | Inr t \<Rightarrow> Type_Name t) fl acc of
                Inl p \<Rightarrow> Inl p
              | Inr acc' \<Rightarrow> fields_loop en withRelation scope rest acc' w1)))"
| "fieldFromStruct en scope fieldStruct withRelation w =
     (case FieldByName (fst (IndirectValue scope)) (fst fieldStruct) of
        Inl p \<Rightarrow> Inl p
      | Inr value \<Rightarrow>
          (case (case Scope_db scope of
                   None \<Rightarrow> Inr ''sql''
                 | Some d \<Rightarrow>
                     (case parent (handles w d) of
                        None \<Rightarrow> Inl NilPointer
                      | Some p \<Rightarrow> Inr (tagIdentifier (handles w p)))) of
             Inl p \<Rightarrow> Inl p
           | Inr tagId \<Rightarrow>
               let indirectValue = Indirect value;
                   tg = fst (snd fieldStruct);
                   settings = parseTagSetting en (Tag_Get tg ''gorm'');
                   field = \<lparr>Name = fst fieldStruct,
                            DBName = (case settings ''COLUMN'' of
                                        Some v \<Rightarrow> v
                                      | None \<Rightarrow> ToSnake en (fst fieldStruct)),
                            Field_Field = value, Tag = tg, Relationship = None,
                            IsNormal = False, IsBlank = isBlank en value,
                            IsIgnored = (Tag_Get tg tagId = ''-''),
                            IsPrimaryKey = (settings ''PRIMARY_KEY'' \<noteq> None),
                            DefaultValue = parseTagSetting en (Tag_Get tg ''sql'') ''DEFAULT''\<rparr>
               in
               if IsIgnored field then Inr ([field], w)
               else
                 (case (if \<not> IsValid indirectValue
                        then (case value of
                                Invalid \<Rightarrow> Inl ZeroValue
                              | RV v a \<Rightarrow> Inr (RV (PtrV (type_of v) (Some (zero (type_of v)))) False))
                        else Inr indirectValue) of
                    Inl p \<Rightarrow> Inl p
                  | Inr Invalid \<Rightarrow> Inl ZeroValue
                  | Inr (RV iv ia) \<Rightarrow>
                      (case rv_Type (fst (IndirectValue scope)) of
                         Inl p \<Rightarrow> Inl p
                       | Inr scopeTyp \<Rightarrow>
                           let typ = type_of iv;
                               polymorphic = SnakeToUpperCamel en (setting settings ''POLYMORPHIC'');
                               foreignKey = (if polymorphic \<noteq> [] then polymorphic @ ''Id''
                                             else SnakeToUpperCamel en (setting settings ''FOREIGNKEY''));
                               foreignType = (if polymorphic \<noteq> [] then polymorphic @ ''Type''
                                              else SnakeToUpperCamel en (setting settings ''FOREIGNTYPE''));
                               associationForeignKey =
                                 SnakeToUpperCamel en (setting settings ''ASSOCIATIONFOREIGNKEY'');
                               many2many = setting settings ''MANY2MANY''
                           in
                           (case Kind_of (RV iv ia) of
                              KSlice \<Rightarrow>
                                (case Type_Elem typ of
                                   Inl p \<Rightarrow> Inl p
                                 | Inr elem \<Rightarrow>
                                     if Type_Kind elem = KStruct \<and> withRelation then
                                       let fk = (if foreignKey = [] then Type_Name scopeTyp @ ''Id''
                                                 else foreignKey);
                                           afk = (if associationForeignKey = []
                                                  then Type_Name elem @ ''Id''
                                                  else associationForeignKey);
                                           fk' = (if many2many = [] \<and> \<not> has_field en elem fk
                                                  then [] else fk)
                                       in Inr ([field\<lparr>Relationship := Some
                                                  \<lparr>JoinTable = many2many, ForeignKey = fk',
                                                   ForeignType = foreignType,
                                                   AssociationForeignKey = afk,
                                                   Kind = (if many2many \<noteq> [] then ''many_to_many''
                                                           else ''has_many'')\<rparr>\<rparr>], w)
                                     else Inr ([field\<lparr>IsNormal := True\<rparr>], w))
                            | KStruct \<Rightarrow>
                                if (case value of RV (TimeV t) a \<Rightarrow> True | _ \<Rightarrow> False)
                                   \<or> (case value of Invalid \<Rightarrow> False
                                       | RV v a \<Rightarrow> Scanner en (type_of v) \<noteq> None)
                                then Inr ([field\<lparr>IsNormal := True\<rparr>], w)
                                else if settings ''EMBEDDED'' \<noteq> None \<or> fst (snd (snd fieldStruct))
                                then
                                  (case value of
                                     Invalid \<Rightarrow> Inr ([], w)
                                   | RV v a \<Rightarrow>
                                       if a then
                                         (case Fields en True
                                                 (New scope (Some (PtrV (type_of v) (Some v)))) w of
                                            Inl p \<Rightarrow> Inl p
                                          | Inr (m, s', w1) \<Rightarrow>
                                              Inr (map snd (range_order en (snd m)), w1))
                                       else Inr ([], w))
                                else if withRelation then
                                  let belongsToForeignKey =
                                        (if foreignKey = [] then Name field @ ''Id'' else foreignKey);
                                      hasOneForeignKey =
                                        (if foreignKey = [] then Type_Name scopeTyp @ ''Id''
                                         else foreignKey)
                                  in
                                  (case HasColumn en scope belongsToForeignKey w of
                                     Inl p \<Rightarrow> Inl p
                                   | Inr (b, w1) \<Rightarrow>
                                       Inr ([field\<lparr>Relationship := Some
                                                \<lparr>JoinTable = [],
                                                 ForeignKey = (if b then belongsToForeignKey
                                                               else hasOneForeignKey),
                                                 ForeignType = foreignType,
                                                 AssociationForeignKey = [],
                                                 Kind = (if b then ''belongs_to'' else ''has_one'')\<rparr>\<rparr>],
                                            w1))
                                else Inr ([field], w)
                            | _ \<Rightarrow> Inr ([field\<lparr>IsNormal := True\<rparr>], w))))))"
| "HasColumn en scope column w =
     (case (if Kind_of (fst (IndirectValue scope)) = KSlice
            then (case rv_Type (fst (IndirectValue scope)) of
                    Inl p \<Rightarrow> Inl p
                  | Inr t \<Rightarrow>
                      (case Type_Elem t of
                         Inl p \<Rightarrow> Inl p
                       | Inr elem \<Rightarrow> Inr (New scope (Some (PtrV elem (Some (zero elem)))))))
            else Inr scope) of
        Inl p \<Rightarrow> Inl p
      | Inr clone_scope \<Rightarrow>
          (case Fields en False clone_scope w of
             Inl p \<Rightarrow> Inl p
           | Inr (m, s', w1) \<Rightarrow> Inr (map_of (snd m) (ToSnake en column) \<noteq> None, w1)))"
  by pat_completeness auto
termination
proof -
  have zero_type: "type_of (zero t) = t" for t
    by (induction t) (auto intro!: map_idI)
  have field_type_size: "size (type_of (snd f)) < size (type_of (StructV n fs))"
    if "f \<in> set fs" for f fs n
    using that by (induction fs) (auto simp: less_Suc_eq_le)
  have by_name: "size (type_of v) < tsize scope"
    if h: "FieldByName (fst (IndirectValue scope)) a = Inr (RV v b)" for scope a v b
  proof (cases "fst (IndirectValue scope)")
    case Invalid
    with h show ?thesis by simp
  next
    case (RV x c)
    show ?thesis
    proof (cases x)
      case (StructV n fs)
      with h RV obtain f where "find (\<lambda>f. fst (fst f) = a) fs = Some f" and "snd f = v"
        by (auto split: option.splits)
      then have "f \<in> set fs" by (auto simp: find_Some_iff)
      from field_type_size[OF this, of n] \<open>snd f = v\<close> RV StructV
      show ?thesis by (simp add: tsize_def)
    qed (use h RV in auto)
  qed
  have memo: "tsize y = tsize scope" if "(x, y) = IndirectValue scope" for x y scope
  proof -
    have "tsize (snd (IndirectValue scope)) = tsize scope"
      by (simp add: tsize_def IndirectValue_def Let_def split: option.splits)
    with that show ?thesis by (metis snd_conv)
  qed
  have cloned: "tsize b \<le> tsize scope"
    if c: "(if Kind_of (fst (IndirectValue scope)) = KSlice
            then (case rv_Type (fst (IndirectValue scope)) of
                    Inl p \<Rightarrow> Inl p
                  | Inr t \<Rightarrow>
                      (case Type_Elem t of
                         Inl p \<Rightarrow> Inl p
                       | Inr elem \<Rightarrow> Inr (New scope (Some (PtrV elem (Some (zero elem)))))))
            else Inr scope) = Inr b" for scope b
  proof (cases "Kind_of (fst (IndirectValue scope)) = KSlice")
    case True
    then obtain t vs a where iv: "fst (IndirectValue scope) = RV (SliceV t vs) a"
      by (cases "fst (IndirectValue scope)" rule: Kind_of.cases) auto
    with c have "b = New scope (Some (PtrV t (Some (zero t))))" by simp
    then have "tsize b = size t"
      by (simp add: tsize_def New_def IndirectValue_def Let_def zero_type)
    moreover have "tsize scope = Suc (size t)" using iv by (simp add: tsize_def)
    ultimately show ?thesis by simp
  next
    case False
    with c show ?thesis by simp
  qed
  have fresh: "tsize (New scope (Some (PtrV t (Some v)))) = size (type_of v)" for scope t v
    by (simp add: tsize_def New_def IndirectValue_def Let_def)
  show ?thesis
    apply (relation "inv_image (less_than <*lex*> less_than)
       (\<lambda>x. case x of
          Inl (Inl (en, wr, scope, w)) \<Rightarrow> (12 * tsize scope + (if wr then 11 else 7), 0)
        | Inl (Inr (en, wr, scope, rest, acc, w)) \<Rightarrow>
            (12 * tsize scope + (if wr then 10 else 6), length rest)
        | Inr (Inl (en, scope, fs, wr, w)) \<Rightarrow> (12 * tsize scope + (if wr then 9 else 5), 0)
        | Inr (Inr (en, scope, col, w)) \<Rightarrow> (12 * tsize scope + 8, 0))")
           apply (rule wf_inv_image, rule wf_lex_prod, rule wf_less_than, rule wf_less_than)
          apply (auto simp: fresh dest!: by_name cloned memo)
    done
qed

declare Fields.simps [simp del] fields_loop.simps [simp del]
  fieldFromStruct.simps [simp del] HasColumn.simps [simp del]

text \<open>
  \<^verbatim>\<open>PrimaryKeyField\<close>. For a slice the fields are those of a new Scope on a zero
  element; otherwise \<^verbatim>\<open>clone\<close> is the Scope itself. The loop takes the first entry
  flagged primary key in the order in which \<^verbatim>\<open>range\<close> visits the map.
\<close>

definition pick_primary :: "env \<Rightarrow> field_map \<Rightarrow> Scope \<Rightarrow> Field option \<times> Scope" where
  "pick_primary en m scope =
     (case find (\<lambda>e. IsPrimaryKey (snd e)) (range_order en (snd m)) of
        Some e \<Rightarrow> (Some (snd e), scope\<lparr>primaryKeyField := Some (snd e)\<rparr>)
      | None \<Rightarrow> (primaryKeyField scope, scope))"

definition PrimaryKeyField :: "env \<Rightarrow> Scope \<Rightarrow> world \<Rightarrow>
    panic + (Field option \<times> Scope \<times> world)" where
  "PrimaryKeyField en scope w =
     (if primaryKeyField scope = None then
        (case IndirectValue scope of
           (iv, scope1) \<Rightarrow>
             if Kind_of iv = KSlice then
               (case rv_Type iv of
                  Inl p \<Rightarrow> Inl p
                | Inr t \<Rightarrow>
                    (case Type_Elem t of
                       Inl p \<Rightarrow> Inl p
                     | Inr elem \<Rightarrow>
                         (case Fields en True (New scope1 (Some (zero elem))) w of
                            Inl p \<Rightarrow> Inl p
                          | Inr (m, clone_scope, w1) \<Rightarrow>
                              (case pick_primary en m scope1 of
                                 (r, scope2) \<Rightarrow> Inr (r, scope2, w1)))))
             else
               (case Fields en True scope1 w of
                  Inl p \<Rightarrow> Inl p
                | Inr (m, scope2, w1) \<Rightarrow>
                    (case pick_primary en m scope2 of
                       (r, scope3) \<Rightarrow> Inr (r, scope3, w1))))
      else Inr (primaryKeyField scope, scope, w))"

section \<open>Concrete states\<close>

text \<open>
  A small session used to run the definitions: the Handle at address 0 is its own
  \<^verbatim>\<open>parent\<close> (a top-level session), every other address holds a Handle derived from it.
\<close>

definition blank_DB :: DB where
  "blank_DB = \<lparr>db = Conn 0 True False, parent = Some 0, logMode = 0, Value = None,
     Error = None, DB_values = Map.empty, DB_search = None, RowsAffected = 0,
     singularTable = False, tagIdentifier = ''sql''\<rparr>"

definition example_world :: world where
  "example_world = \<lparr>handles = (\<lambda>a. blank_DB), brk = 2, events = []\<rparr>"

definition example_scope :: "addr \<Rightarrow> gvalue option \<Rightarrow> Scope" where
  "example_scope d v = fst (NewScope d v example_world)"

text \<open>Latching between two steps of a chain, and the key of the transaction marker.\<close>

definition set_Error :: "addr \<Rightarrow> error option \<Rightarrow> world \<Rightarrow> world" where
  "set_Error d e w = upd d (\<lambda>h. h\<lparr>Error := e\<rparr>) w"

definition marker_key :: "Scope \<Rightarrow> world \<Rightarrow> string" where
  "marker_key scope w = ''gorm:started_transaction'' @ fst (InstanceId scope w)"

text \<open>
  What the latch holds after a sequence of results has been passed to \<^verbatim>\<open>DB.err\<close>:
  an error is stored unless it is nil or a scan mismatch.
\<close>

definition stored :: "error \<Rightarrow> bool" where
  "stored x = (x = RecordNotFound \<or> \<not> scan_error_match (Error_msg x))"

definition latch1 :: "error option \<Rightarrow> error option \<Rightarrow> error option" where
  "latch1 cur e = (case e of None \<Rightarrow> cur | Some x \<Rightarrow> if stored x then Some x else cur)"





text \<open>Values and hooks used to run the dispatcher.\<close>

definition User_t :: gtype where
  "User_t = Struct ''User'' [(''Id'', [], False, Basic ''int64''), (''Name'', [], False, Basic ''string'')]"

definition user :: "string \<Rightarrow> string \<Rightarrow> gvalue" where
  "user i n = StructV ''User'' [((''Id'', [], False), BasicV ''int64'' i),
                                ((''Name'', [], False), BasicV ''string'' n)]"




definition searching_world :: world where
  "searching_world =
     upd 1 (\<lambda>h. h\<lparr>DB_search := Some (empty_search\<lparr>search_TableName := ''users''\<rparr>)\<rparr>) example_world"

definition idle_hooks :: methods where
  "idle_hooks v name = (if name = ''AfterFind'' then Some (FDB (\<lambda>a w. w)) else None)"

definition odd_hooks :: methods where
  "odd_hooks v name = (if name = ''AfterFind'' then Some FOther else None)"


section \<open>Pluralisation as the specification words it\<close>

text \<open>
  The ordered suffix rules of the specification; \<open>first_rule\<close> applies the first one
  whose suffix the name ends with. \<open>plural_spec\<close> is the specification's rule
  ("else append s"); \<open>plural_by_rules\<close> differs in the default case only: a name that
  is empty or ends in \<open>s\<close> is left as it is.
\<close>

definition suffix_rules :: "(string \<times> string) list" where
  "suffix_rules = [(''ch'', ''ches''), (''ss'', ''sses''), (''sh'', ''shes''),
                   (''day'', ''days''), (''y'', ''ies''), (''x'', ''xes'')]"

fun first_rule :: "(string \<times> string) list \<Rightarrow> string \<Rightarrow> string option" where
  "first_rule [] s = None"
| "first_rule ((suf, rep) # rs) s =
     (if ends_with s suf then Some (take (length s - length suf) s @ rep)
      else first_rule rs s)"

definition plural_spec :: "string \<Rightarrow> string" where
  "plural_spec s = (case first_rule suffix_rules s of Some r \<Rightarrow> r | None \<Rightarrow> s @ ''s'')"

definition plural_by_rules :: "string \<Rightarrow> string" where
  "plural_by_rules s =
     (case first_rule suffix_rules s of
        Some r \<Rightarrow> r
      | None \<Rightarrow> if s = [] \<or> last s = CHR ''s'' then s else s @ ''s'')"


section \<open>A concrete environment\<close>

text \<open>
  Helpers that agree with the real ones on the names used here, and a type
  (\<open>NullString\<close>) whose \<^verbatim>\<open>Scan\<close> refuses what it is given.
\<close>

definition example_ToSnake :: "string \<Rightarrow> string" where
  "example_ToSnake s =
     (case map_of [(''News'', ''news''), (''User'', ''user''), (''Id'', ''id''),
                   (''Name'', ''name''), (''Code'', ''code''), (''Key'', ''key''),
                   (''Profile'', ''profile''), (''UserId'', ''user_id'')] s of
        Some r \<Rightarrow> r
      | None \<Rightarrow> s)"

definition example_parseTagSetting :: "string \<Rightarrow> (string \<rightharpoonup> string)" where
  "example_parseTagSetting s =
     (if s = ''primary_key'' then [''PRIMARY_KEY'' \<mapsto> ''PRIMARY_KEY'']
      else if s = ''embedded'' then [''EMBEDDED'' \<mapsto> ''EMBEDDED'']
      else Map.empty)"

fun example_isBlank :: "rvalue \<Rightarrow> bool" where
  "example_isBlank (RV (BasicV t x) a) = (x = [])"
| "example_isBlank (RV (PtrV t None) a) = True"
| "example_isBlank (RV (SliceV t []) a) = True"
| "example_isBlank v = False"

definition NullString_t :: gtype where
  "NullString_t = Struct ''NullString'' [(''String'', [], False, Basic ''string''),
                                         (''Valid'', [], False, Basic ''bool'')]"

definition refusing_Scan :: "gvalue \<Rightarrow> gvalue option \<Rightarrow> gvalue \<times> error option" where
  "refusing_Scan cell v = (cell, Some (ErrorString ''unsupported Scan''))"

definition example_env :: env where
  "example_env =
     \<lparr>ToSnake = example_ToSnake, SnakeToUpperCamel = (\<lambda>s. s),
      parseTagSetting = example_parseTagSetting, isBlank = example_isBlank,
      range_order = (\<lambda>m. m), promoted_field = (\<lambda>t n. False),
      ConvertibleTo = (\<lambda>a b. a = b), Convert = (\<lambda>v t. v),
      Scanner = (\<lambda>t. if t = NullString_t then Some refusing_Scan else None)\<rparr>"

definition news :: gvalue where
  "news = StructV ''News'' [((''Id'', [], False), BasicV ''int64'' ''1'')]"

definition name_field :: Field where
  "name_field = \<lparr>Name = ''Name'', DBName = ''name'', Field_Field = RV (zero NullString_t) True,
     Tag = [], Relationship = None, IsNormal = True, IsBlank = True, IsIgnored = False,
     IsPrimaryKey = False, DefaultValue = None\<rparr>"


section \<open>The Scope whose fields give the primary key\<close>

text \<open>
  For a collection target, a new Scope on a zero element of the element type; for any
  other target, the Scope itself (with its indirect value memoised).
\<close>

definition key_scope :: "Scope \<Rightarrow> Scope" where
  "key_scope scope =
     (case fst (IndirectValue scope) of
        RV (SliceV elem vs) a \<Rightarrow> New (snd (IndirectValue scope)) (Some (zero elem))
      | _ \<Rightarrow> snd (IndirectValue scope))"

text \<open>
  An account with two fields tagged \<open>primary_key\<close> and a field of struct type, and
  a runtime whose \<^verbatim>\<open>range\<close> visits the entries of a map last to first.
\<close>

definition Profile_t :: gtype where
  "Profile_t = Struct ''Profile'' [(''Id'', [], False, Basic ''int64'')]"

definition Account_t :: gtype where
  "Account_t = Struct ''Account''
     [(''Code'', [(''gorm'', ''primary_key'')], False, Basic ''string''),
      (''Key'', [(''gorm'', ''primary_key'')], False, Basic ''string''),
      (''Profile'', [], False, Profile_t)]"

definition account :: gvalue where
  "account = zero Account_t"

definition reversing_env :: env where
  "reversing_env = example_env\<lparr>range_order := rev\<rparr>"

definition account_scope :: Scope where
  "account_scope = example_scope 1 (Some (PtrV Account_t (Some account)))"


section \<open>The error latch of the Handle\<close>

lemma err_returns:
  assumes "logMode (handles w s) = 2 \<longrightarrow> parent (handles w s) \<noteq> None"
  shows "\<exists>r w'. err s e w = Inr (r, w')"
  using assms by (auto simp: err_def log_def print_def split: option.splits sum.splits)

text \<open>
  Claim C2, as amended. The claim says that a latched error is never overwritten by a
  later one. \<^verbatim>\<open>DB.err\<close> assigns \<^verbatim>\<open>s.Error = err\<close> without looking at the error
  already stored: a later non-nil error that is not suppressed as a scan mismatch
  replaces whatever was latched, so the last stored error wins.
\<close>

theorem err_last_wins:
  assumes "Error (handles w s) = Some y" and "y \<noteq> x"
      and "x = RecordNotFound \<or> \<not> scan_error_match (Error_msg x)"
      and "logMode (handles w s) = 2 \<longrightarrow> parent (handles w s) \<noteq> None"
  shows "\<exists>w'. err s (Some x) w = Inr (Some x, w') \<and> Error (handles w' s) = Some x"
  using assms
  by (auto simp: err_def log_def print_def upd_def emit_def split: option.splits sum.splits)

text \<open>Witness of C2 as amended: a Handle holding \<open>first\<close> is given \<open>second\<close>.\<close>

theorem err_last_wins_witness:
  "Error (handles (set_Error 1 (Some (ErrorString ''first'')) example_world) 1)
      = Some (ErrorString ''first'') \<and>
   ErrorString ''first'' \<noteq> ErrorString ''second'' \<and>
   \<not> scan_error_match (Error_msg (ErrorString ''second'')) \<and>
   (\<exists>w'. err 1 (Some (ErrorString ''second''))
            (set_Error 1 (Some (ErrorString ''first'')) example_world)
          = Inr (Some (ErrorString ''second''), w') \<and>
        Error (handles w' 1) = Some (ErrorString ''second''))"
  using err_last_wins [of "set_Error 1 (Some (ErrorString ''first'')) example_world" 1
      "ErrorString ''first''" "ErrorString ''second''"]
  by (simp add: set_Error_def upd_def example_world_def blank_DB_def scan_error_match_def)

text \<open>
  Counterexample to C2 as stated: two calls of \<^verbatim>\<open>err\<close> on the same Handle, with two
  different errors; after the first the Handle holds \<open>first\<close>, after the second it
  holds \<open>second\<close>.
\<close>

theorem err_first_wins_counterexample:
  "Error (handles (snd (projr (err 1 (Some (ErrorString ''first'')) example_world))) 1)
     = Some (ErrorString ''first'') \<and>
   Error (handles (snd (projr (err 1 (Some (ErrorString ''second''))
        (snd (projr (err 1 (Some (ErrorString ''first'')) example_world)))))) 1)
     = Some (ErrorString ''second'')"
  by (simp add: err_def log_def print_def upd_def emit_def example_world_def blank_DB_def
      scan_error_match_def)

text \<open>
  Claim C5, as amended. An error whose message starts with
  \<^verbatim>\<open>sql: Scan error on column index\<close> is not stored in the Handle (the Handle's
  record is left as it was); but \<^verbatim>\<open>DB.err\<close> then returns nil to its caller, not the
  original error.
\<close>

theorem err_scan_suppressed:
  assumes "scan_error_match (Error_msg x)"
      and "logMode (handles w s) = 2 \<longrightarrow> parent (handles w s) \<noteq> None"
  shows "\<exists>w'. err s (Some x) w = Inr (None, w') \<and> handles w' = handles w"
  using assms
  by (cases x)
     (auto simp: err_def log_def print_def upd_def emit_def scan_error_match_def
           split: option.splits sum.splits)

text \<open>Witness of C5 as amended, on a driver's scan-mismatch message.\<close>

theorem err_scan_suppressed_witness:
  "scan_error_match (Error_msg (ErrorString ''sql: Scan error on column index 0: x'')) \<and>
   (\<exists>w'. err 1 (Some (ErrorString ''sql: Scan error on column index 0: x'')) example_world
            = Inr (None, w') \<and> handles w' = handles example_world)"
  using err_scan_suppressed [of "ErrorString ''sql: Scan error on column index 0: x''"
      example_world 1]
  by (simp add: example_world_def blank_DB_def scan_error_match_def)

text \<open>
  Counterexample to C5 as stated: for a message that matches the pattern, the value
  \<^verbatim>\<open>DB.err\<close> returns is not the original error.
\<close>

theorem err_scan_counterexample:
  "scan_error_match (Error_msg (ErrorString ''sql: Scan error on column index 0: x'')) \<and>
   fst (projr (err 1 (Some (ErrorString ''sql: Scan error on column index 0: x''))
          example_world))
     \<noteq> Some (ErrorString ''sql: Scan error on column index 0: x'')"
  by (simp add: err_def log_def print_def upd_def emit_def example_world_def blank_DB_def
      scan_error_match_def)

section \<open>Transactions bound to a Scope\<close>

lemma Begin_ok:
  assumes "Scope_db scope = Some d" and "is_sqlDb (db (handles w d))"
  shows "\<exists>scope1 w1. Begin (Inr tx) scope w = Inr (scope1, w1) \<and>
           Scope_db scope1 = Some d \<and> instanceId scope1 \<noteq> [] \<and>
           handles w1 = (handles w)(d := (handles w d)\<lparr>db := sql_Tx tx,
              DB_values := (DB_values (handles w d))
                 (''gorm:started_transaction'' @ instanceId scope1 \<mapsto> true_v)\<rparr>) \<and>
           events w1 = events w @ [TxBegin (db (handles w d))]"
  using assms
  by (auto simp: Begin_def DB_of_def InstanceSet_def InstanceId_def Scope_Set_def InstantSet_def
       upd_def emit_def Let_def fmt_ptr_def fun_eq_iff)

lemma CommitOrRollback_marked:
  assumes "Scope_db scope = Some d" and "instanceId scope \<noteq> []"
      and "DB_values (handles w d) (''gorm:started_transaction'' @ instanceId scope) = Some v"
      and "is_sqlTx (db (handles w d))" and "parent (handles w d) = Some p"
  shows "CommitOrRollback scope w =
           Inr (scope, upd d (\<lambda>h. h\<lparr>db := db (handles w p)\<rparr>)
              (emit (if Error (handles w d) \<noteq> None then TxRollback (db (handles w d))
                     else TxCommit (db (handles w d))) w))"
  using assms
  by (auto simp: CommitOrRollback_def InstanceGet_def InstanceId_def Scope_Get_def Get_def
       HasError_def upd_def emit_def Let_def)

lemma CommitOrRollback_unmarked:
  assumes "Scope_db scope = Some d"
      and "Get d (marker_key scope w) w = None"
  shows "\<exists>w1. CommitOrRollback scope w = Inr (scope\<lparr>instanceId := fst (InstanceId scope w)\<rparr>, w1) \<and>
            handles w1 = handles w \<and> events w1 = events w"
  using assms
  by (auto simp: CommitOrRollback_def InstanceGet_def InstanceId_def Scope_Get_def Get_def
       marker_key_def Let_def split: if_splits)

lemma Begin_then_finish:
  assumes "Scope_db scope = Some d" and "is_sqlDb (db (handles w d))"
      and "parent (handles w d) = Some p" and "p \<noteq> d"
  shows "\<exists>scope1 w1. Begin (Inr tx) scope w = Inr (scope1, w1) \<and>
           db (handles w1 d) = sql_Tx tx \<and>
           Get d (marker_key scope1 w1) w1 \<noteq> None \<and>
           (\<forall>e. \<exists>w2. CommitOrRollback scope1 (set_Error d e w1) = Inr (scope1, w2) \<and>
                  events w2 = events w1 @
                     [if e = None then TxCommit (sql_Tx tx) else TxRollback (sql_Tx tx)] \<and>
                  db (handles w2 d) = db (handles w p))"
proof -
  from Begin_ok[OF assms(1,2), of tx] obtain scope1 w1 where
    b: "Begin (Inr tx) scope w = Inr (scope1, w1)" and sd: "Scope_db scope1 = Some d"
    and ne: "instanceId scope1 \<noteq> []"
    and hs: "handles w1 = (handles w)(d := (handles w d)\<lparr>db := sql_Tx tx,
              DB_values := (DB_values (handles w d))
                 (''gorm:started_transaction'' @ instanceId scope1 \<mapsto> true_v)\<rparr>)"
    and ev: "events w1 = events w @ [TxBegin (db (handles w d))]"
    by blast
  have db1: "db (handles w1 d) = sql_Tx tx" by (simp add: hs)
  have mk: "Get d (marker_key scope1 w1) w1 \<noteq> None"
    using ne by (simp add: Get_def marker_key_def InstanceId_def hs)
  have fin: "\<exists>w2. CommitOrRollback scope1 (set_Error d e w1) = Inr (scope1, w2) \<and>
                  events w2 = events w1 @
                     [if e = None then TxCommit (sql_Tx tx) else TxRollback (sql_Tx tx)] \<and>
                  db (handles w2 d) = db (handles w p)" for e
  proof -
    let ?w = "set_Error d e w1"
    have 1: "DB_values (handles ?w d) (''gorm:started_transaction'' @ instanceId scope1)
               = Some true_v"
      by (simp add: set_Error_def upd_def hs)
    have 2: "is_sqlTx (db (handles ?w d))" by (simp add: set_Error_def upd_def hs sql_Tx_def)
    have 3: "parent (handles ?w d) = Some p"
      using assms(3) by (simp add: set_Error_def upd_def hs)
    show ?thesis
      unfolding CommitOrRollback_marked[OF sd ne 1 2 3]
      using assms(4) by (auto simp: set_Error_def upd_def emit_def hs)
  qed
  from b db1 mk fin show ?thesis by blast
qed

text \<open>
  Claim C1, as amended. On a Scope whose Handle is not itself its top-level session
  (\<open>p \<noteq> d\<close>) and whose connection can begin a transaction, \<^verbatim>\<open>Begin\<close> succeeds when
  the driver does: it routes the Handle through the new transaction handle and sets
  the instance-scoped marker. Whatever the latch holds afterwards (\<open>e\<close>),
  \<^verbatim>\<open>CommitOrRollback\<close> then commits the transaction if the latch is unset, rolls it
  back if it is set, and in either case makes the Handle's connection the one the
  top-level session had before the transaction. On a Scope without the marker
  (\<open>scope'\<close>), \<^verbatim>\<open>CommitOrRollback\<close> issues no call on a connection and leaves every
  Handle as it was; it only memoises the Scope's instance identifier.
\<close>

theorem begin_commit_or_rollback:
  assumes "Scope_db scope = Some d" and "is_sqlDb (db (handles w d))"
      and "parent (handles w d) = Some p" and "p \<noteq> d"
      and "Scope_db scope' = Some d'" and "Get d' (marker_key scope' w') w' = None"
  shows "(\<exists>scope1 w1. Begin (Inr tx) scope w = Inr (scope1, w1) \<and>
           db (handles w1 d) = sql_Tx tx \<and>
           Get d (marker_key scope1 w1) w1 \<noteq> None \<and>
           (\<forall>e. \<exists>w2. CommitOrRollback scope1 (set_Error d e w1) = Inr (scope1, w2) \<and>
                  events w2 = events w1 @
                     [if e = None then TxCommit (sql_Tx tx) else TxRollback (sql_Tx tx)] \<and>
                  db (handles w2 d) = db (handles w p))) \<and>
         (\<exists>w1. CommitOrRollback scope' w'
                  = Inr (scope'\<lparr>instanceId := fst (InstanceId scope' w')\<rparr>, w1) \<and>
               handles w1 = handles w' \<and> events w1 = events w')"
  using Begin_then_finish[OF assms(1-4)] CommitOrRollback_unmarked[OF assms(5,6)]
  by blast

text \<open>
  Witness of C1 as amended: a Scope on the derived Handle at address 1, whose
  top-level session is the Handle at address 0; the driver opens transaction 7.
\<close>

theorem begin_commit_or_rollback_witness:
  "Scope_db (example_scope 1 None) = Some 1 \<and>
   is_sqlDb (db (handles example_world 1)) \<and>
   parent (handles example_world 1) = Some 0 \<and> (0::nat) \<noteq> 1 \<and>
   Get 1 (marker_key (example_scope 1 None) example_world) example_world = None \<and>
   (\<exists>scope1 w1. Begin (Inr 7) (example_scope 1 None) example_world = Inr (scope1, w1) \<and>
      db (handles w1 1) = sql_Tx 7 \<and>
      (\<exists>w2. CommitOrRollback scope1 (set_Error 1 None w1) = Inr (scope1, w2) \<and>
          events w2 = events w1 @ [TxCommit (sql_Tx 7)] \<and>
          db (handles w2 1) = Conn 0 True False) \<and>
      (\<exists>w2. CommitOrRollback scope1 (set_Error 1 (Some RecordNotFound) w1) = Inr (scope1, w2) \<and>
          events w2 = events w1 @ [TxRollback (sql_Tx 7)] \<and>
          db (handles w2 1) = Conn 0 True False))"
proof -
  have h: "Scope_db (example_scope 1 None) = Some 1"
          "is_sqlDb (db (handles example_world 1))"
          "parent (handles example_world 1) = Some 0" "(0::nat) \<noteq> 1"
          "Get 1 (marker_key (example_scope 1 None) example_world) example_world = None"
    by (simp_all add: example_scope_def NewScope_def example_world_def blank_DB_def Get_def)
  have p0: "db (handles example_world 0) = Conn 0 True False"
    by (simp add: example_world_def blank_DB_def)
  from begin_commit_or_rollback [OF h(1-4) h(1) h(5), of 7]
  obtain scope1 w1 where
    b: "Begin (Inr 7) (example_scope 1 None) example_world = Inr (scope1, w1)"
    and d: "db (handles w1 1) = sql_Tx 7"
    and f: "\<forall>e. \<exists>w2. CommitOrRollback scope1 (set_Error 1 e w1) = Inr (scope1, w2) \<and>
                  events w2 = events w1 @
                     [if e = None then TxCommit (sql_Tx 7) else TxRollback (sql_Tx 7)] \<and>
                  db (handles w2 1) = db (handles example_world 0)"
    by blast
  from f[rule_format, of None] f[rule_format, of "Some RecordNotFound"] b d h p0
  show ?thesis by simp
qed

text \<open>
  Counterexample to C1 as stated: the Scope is on the top-level session itself (the
  Handle at address 0 is its own \<^verbatim>\<open>parent\<close>). \<^verbatim>\<open>Begin\<close> succeeds, and after
  \<^verbatim>\<open>CommitOrRollback\<close> the Handle's connection is still the transaction handle, not
  the connection \<open>Conn 0 True False\<close> it had before the transaction.
\<close>

theorem commit_or_rollback_self_parent_counterexample:
  "parent (handles example_world 0) = Some 0 \<and>
   db (handles example_world 0) = Conn 0 True False \<and>
   db (handles (snd (projr (Begin (Inr 7) (example_scope 0 None) example_world))) 0) = sql_Tx 7 \<and>
   db (handles (snd (projr (CommitOrRollback
         (fst (projr (Begin (Inr 7) (example_scope 0 None) example_world)))
         (snd (projr (Begin (Inr 7) (example_scope 0 None) example_world)))))) 0) = sql_Tx 7"
  by (simp add: example_world_def blank_DB_def example_scope_def NewScope_def Begin_def
       DB_of_def InstanceSet_def InstanceId_def Scope_Set_def InstantSet_def upd_def emit_def
       Let_def fmt_ptr_def CommitOrRollback_def InstanceGet_def Scope_Get_def Get_def
       HasError_def sql_Tx_def)

section \<open>Hook dispatch\<close>

lemma unsupported_not_scan: "\<not> scan_error_match (''unsupported function '' @ name)"
  by (simp add: scan_error_match_def)

lemma new_props:
  assumes "d < brk w"
  shows "fst (new d w) = brk w"
    and "handles (snd (new d w)) (brk w) =
           \<lparr>db = db (handles w d), parent = parent (handles w d), logMode = logMode (handles w d),
            Value = Value (handles w d), Error = Error (handles w d),
            DB_values = DB_values (handles w d),
            DB_search = Some (empty_search\<lparr>search_db := Some (brk w)\<rparr>),
            RowsAffected = 0, singularTable = False, tagIdentifier = []\<rparr>"
    and "handles (snd (new d w)) d = (handles w d)\<lparr>DB_search := None\<rparr>"
  using assms by (simp_all add: new_def clone_def upd_def Let_def)



lemma Err_effect:
  assumes "Scope_db scope = Some d"
      and "logMode (handles w d) = 2 \<longrightarrow> parent (handles w d) \<noteq> None"
  shows "\<exists>w'. Err scope e w = Inr (e, w') \<and>
           handles w' = (handles w)(d := (handles w d)\<lparr>Error := latch1 (Error (handles w d)) e\<rparr>)"
  using assms
  by (cases e)
     (auto simp: Err_def err_def log_def print_def upd_def emit_def latch1_def stored_def
           split: option.splits sum.splits)




lemma IndirectValue_frame:
  "IndirectValue scope = (v, scope1) \<Longrightarrow>
     Scope_db scope1 = Scope_db scope \<and> Search scope1 = Search scope \<and>
     Scope_Value scope1 = Scope_Value scope"
  by (auto simp: IndirectValue_def Let_def split: option.splits)



text \<open>
  Claim C4, as amended. A hook that takes a fresh Handle receives the Handle that
  \<^verbatim>\<open>new()\<close> derives from the Scope's Handle: a newly allocated Handle with the
  connection, parent, log mode, value, error and settings of the Scope's Handle and a
  condition accumulator of its own, empty. But \<^verbatim>\<open>new()\<close> first sets the
  accumulator reference of the Scope's own Handle to nil, so the dispatch does not
  leave it unchanged; the Scope's own \<^verbatim>\<open>Search\<close> reference is not touched.
\<close>

theorem fresh_handle_hook:
  assumes "Scope_Value scope = Some v" and "Kind_of (fst (IndirectValue scope)) \<noteq> KSlice"
      and "Scope_db scope = Some d" and "d < brk w"
      and "ms v name = Some (FDB f) \<or> ms v name = Some (FDBE g)"
  shows "(ms v name = Some (FDB f) \<longrightarrow>
            CallMethod ms name scope w
              = Inr ([v], snd (IndirectValue scope), f (brk w) (snd (new d w)))) \<and>
         (ms v name = Some (FDBE g) \<longrightarrow>
            CallMethod ms name scope w
              = latch [v] (snd (IndirectValue scope)) (fst (g (brk w) (snd (new d w))))
                  (snd (g (brk w) (snd (new d w))))) \<and>
         handles (snd (new d w)) (brk w) =
           \<lparr>db = db (handles w d), parent = parent (handles w d), logMode = logMode (handles w d),
            Value = Value (handles w d), Error = Error (handles w d),
            DB_values = DB_values (handles w d),
            DB_search = Some (empty_search\<lparr>search_db := Some (brk w)\<rparr>),
            RowsAffected = 0, singularTable = False, tagIdentifier = []\<rparr> \<and>
         handles (snd (new d w)) d = (handles w d)\<lparr>DB_search := None\<rparr> \<and>
         Search (snd (IndirectValue scope)) = Search scope"
proof -
  obtain vals scope1 where iv: "IndirectValue scope = (vals, scope1)" by (cases "IndirectValue scope")
  note fr = IndirectValue_frame[OF iv]
  have n: "new d w = (brk w, snd (new d w))"
    using new_props(1)[OF assms(4)] by (metis prod.collapse)
  have A: "ms v name = Some (FDB f) \<longrightarrow>
            CallMethod ms name scope w = Inr ([v], scope1, f (brk w) (snd (new d w)))"
    using assms(1,2,3) iv fr n by (auto simp: CallMethod_def call_def NewDB_def split: prod.splits)
  have B: "ms v name = Some (FDBE g) \<longrightarrow>
            CallMethod ms name scope w
              = latch [v] scope1 (fst (g (brk w) (snd (new d w))))
                  (snd (g (brk w) (snd (new d w))))"
    using assms(1,2,3) iv fr n by (auto simp: CallMethod_def call_def NewDB_def split: prod.splits)
  from A B new_props(2,3)[OF assms(4)] fr iv show ?thesis by simp
qed

text \<open>
  Witness of C4 as amended: a hook \<^verbatim>\<open>func(*DB)\<close> that does nothing, on a Scope whose
  Handle (address 1) carries conditions; the fresh Handle is allocated at address 2.
\<close>

theorem fresh_handle_hook_witness:
  "Scope_Value (example_scope 1 (Some (user ''1'' ''a''))) = Some (user ''1'' ''a'') \<and>
   Kind_of (fst (IndirectValue (example_scope 1 (Some (user ''1'' ''a''))))) \<noteq> KSlice \<and>
   Scope_db (example_scope 1 (Some (user ''1'' ''a''))) = Some 1 \<and> 1 < brk searching_world \<and>
   idle_hooks (user ''1'' ''a'') ''AfterFind'' = Some (FDB (\<lambda>a w. w)) \<and>
   CallMethod idle_hooks ''AfterFind'' (example_scope 1 (Some (user ''1'' ''a''))) searching_world
     = Inr ([user ''1'' ''a''], snd (IndirectValue (example_scope 1 (Some (user ''1'' ''a'')))),
            snd (new 1 searching_world)) \<and>
   DB_search (handles (snd (new 1 searching_world)) 2) = Some (empty_search\<lparr>search_db := Some 2\<rparr>) \<and>
   DB_search (handles (snd (new 1 searching_world)) 1) = None"
proof -
  have h: "Scope_Value (example_scope 1 (Some (user ''1'' ''a''))) = Some (user ''1'' ''a'')"
     "Kind_of (fst (IndirectValue (example_scope 1 (Some (user ''1'' ''a''))))) \<noteq> KSlice"
     "Scope_db (example_scope 1 (Some (user ''1'' ''a''))) = Some 1" "1 < brk searching_world"
     "idle_hooks (user ''1'' ''a'') ''AfterFind'' = Some (FDB (\<lambda>a w. w))
       \<or> idle_hooks (user ''1'' ''a'') ''AfterFind'' = Some (FDBE (\<lambda>a w. (None, w)))"
    by (simp_all add: Let_def example_scope_def NewScope_def IndirectValue_def user_def
          searching_world_def upd_def example_world_def idle_hooks_def)
  have b: "brk searching_world = 2"
    by (simp add: searching_world_def upd_def example_world_def)
  from fresh_handle_hook [where ms = idle_hooks and name = "''AfterFind''"
      and f = "\<lambda>a w. w" and g = "\<lambda>a w. (None, w)", OF h] h(1-4) b
  show ?thesis by (simp add: idle_hooks_def)
qed

text \<open>
  Counterexample to C4 as stated: before the dispatch the Scope's Handle carries a
  condition accumulator (with table name \<open>users\<close>); after the dispatch of a hook
  \<^verbatim>\<open>func(*DB)\<close> that does nothing, the Handle's accumulator is nil.
\<close>

theorem fresh_handle_hook_counterexample:
  "DB_search (handles searching_world 1) = Some (empty_search\<lparr>search_TableName := ''users''\<rparr>) \<and>
   DB_search (handles (snd (snd (projr
      (CallMethod idle_hooks ''AfterFind'' (example_scope 1 (Some (user ''1'' ''a'')))
         searching_world)))) 1) = None"
  by (simp add: searching_world_def upd_def example_world_def blank_DB_def example_scope_def
        NewScope_def CallMethod_def IndirectValue_def user_def call_def idle_hooks_def
        NewDB_def new_def clone_def Let_def)

lemma CallMethod_receivers:
  "Scope_Value scope = Some v \<Longrightarrow>
   CallMethod ms name scope w = call_each ms name (receivers scope) (snd (IndirectValue scope)) w"
  by (auto simp: CallMethod_def receivers_def split: prod.splits sum.splits)

lemma call_each_unsupported:
  assumes "Scope_db scope = Some d"
      and "logMode (handles w d) = 2 \<longrightarrow> parent (handles w d) \<noteq> None"
      and "\<forall>v\<in>set vs. ms v name = Some FOther"
      and "e = ErrorString (''unsupported function '' @ name)"
  shows "\<exists>w'. call_each ms name vs scope w = Inr ([], scope, w') \<and>
           handles w' = (handles w)(d := (handles w d)
              \<lparr>Error := (if vs = [] then Error (handles w d) else Some e)\<rparr>)"
  using assms
proof (induction vs arbitrary: w)
  case Nil
  then show ?case by simp
next
  case (Cons v vs)
  from Err_effect[OF Cons.prems(1,2), of "Some e"] obtain w1 where
    e: "Err scope (Some e) w = Inr (Some e, w1)" and
    h1: "handles w1 = (handles w)(d := (handles w d)\<lparr>Error := latch1 (Error (handles w d)) (Some e)\<rparr>)"
    by blast
  have l: "latch1 (Error (handles w d)) (Some e) = Some e"
    using unsupported_not_scan Cons.prems(4) by (simp add: latch1_def stored_def)
  have c: "call ms name v scope w = Inr ([], scope, w1)"
    using Cons.prems(3,4) e by (simp add: call_def latch_def)
  have lg: "logMode (handles w1 d) = 2 \<longrightarrow> parent (handles w1 d) \<noteq> None"
    using Cons.prems(2) by (simp add: h1)
  have ms': "\<forall>v\<in>set vs. ms v name = Some FOther" using Cons.prems(3) by simp
  from Cons.IH[of w1, OF Cons.prems(1) lg ms' Cons.prems(4)] obtain w' where
    r: "call_each ms name vs scope w1 = Inr ([], scope, w')" and
    h2: "handles w' = (handles w1)(d := (handles w1 d)
              \<lparr>Error := (if vs = [] then Error (handles w1 d) else Some e)\<rparr>)"
    by blast
  have hh: "handles w' = (handles w)(d := (handles w d)\<lparr>Error := Some e\<rparr>)"
    by (simp add: h2 h1 l)
  have ce: "call_each ms name (v # vs) scope w = Inr ([], scope, w')"
    using c r by simp
  have ne: "(if v # vs = [] then Error (handles w d) else Some e) = Some e" by simp
  show ?case unfolding ne using ce hh by blast
qed

text \<open>
  Claim C9. When every receiver of the dispatch (the target, or the address of each
  element of a collection target, of which there is at least one) has a method under
  the hook name whose signature is none of the six recognised shapes, \<^verbatim>\<open>CallMethod\<close>
  returns normally, invokes nothing, and the Scope's Handle holds the latched error
  \<^verbatim>\<open>unsupported function <name>\<close>.
\<close>

theorem unsupported_hook_latched:
  assumes "Scope_Value scope = Some v"
      and "receivers scope \<noteq> []"
      and "\<forall>x\<in>set (receivers scope). ms x name = Some FOther"
      and "Scope_db scope = Some d"
      and "logMode (handles w d) = 2 \<longrightarrow> parent (handles w d) \<noteq> None"
  shows "\<exists>scope' w'. CallMethod ms name scope w = Inr ([], scope', w') \<and>
           Error (handles w' d) = Some (ErrorString (''unsupported function '' @ name))"
proof -
  have sd: "Scope_db (snd (IndirectValue scope)) = Some d"
    using assms(4) by (auto simp: IndirectValue_def Let_def split: option.splits)
  from call_each_unsupported[of "snd (IndirectValue scope)" d w "receivers scope" ms name,
      OF sd assms(5,3) refl] assms(2)
  obtain w' where
    "call_each ms name (receivers scope) (snd (IndirectValue scope)) w
       = Inr ([], snd (IndirectValue scope), w')"
    and "handles w' = (handles w)(d := (handles w d)
              \<lparr>Error := Some (ErrorString (''unsupported function '' @ name))\<rparr>)"
    by auto
  then show ?thesis
    unfolding CallMethod_receivers[OF assms(1)] by auto
qed

text \<open>Witness of C9: a method \<open>AfterFind\<close> of an unrecognised shape on a user.\<close>

theorem unsupported_hook_latched_witness:
  "Scope_Value (example_scope 1 (Some (user ''1'' ''a''))) = Some (user ''1'' ''a'') \<and>
   receivers (example_scope 1 (Some (user ''1'' ''a''))) = [user ''1'' ''a''] \<and>
   odd_hooks (user ''1'' ''a'') ''AfterFind'' = Some FOther \<and>
   Scope_db (example_scope 1 (Some (user ''1'' ''a''))) = Some 1 \<and>
   (\<exists>scope' w'. CallMethod odd_hooks ''AfterFind'' (example_scope 1 (Some (user ''1'' ''a'')))
         example_world = Inr ([], scope', w') \<and>
       Error (handles w' 1) = Some (ErrorString ''unsupported function AfterFind''))"
proof -
  have h: "Scope_Value (example_scope 1 (Some (user ''1'' ''a''))) = Some (user ''1'' ''a'')"
     "receivers (example_scope 1 (Some (user ''1'' ''a''))) \<noteq> []"
     "\<forall>x\<in>set (receivers (example_scope 1 (Some (user ''1'' ''a'')))).
         odd_hooks x ''AfterFind'' = Some FOther"
     "Scope_db (example_scope 1 (Some (user ''1'' ''a''))) = Some 1"
     "logMode (handles example_world 1) = 2 \<longrightarrow> parent (handles example_world 1) \<noteq> None"
    by (simp_all add: Let_def example_scope_def NewScope_def IndirectValue_def user_def
          example_world_def blank_DB_def odd_hooks_def receivers_def)
  have r: "receivers (example_scope 1 (Some (user ''1'' ''a''))) = [user ''1'' ''a'']"
    by (simp add: Let_def example_scope_def NewScope_def IndirectValue_def user_def
          receivers_def)
  have o: "odd_hooks (user ''1'' ''a'') ''AfterFind'' = Some FOther"
    by (simp add: odd_hooks_def)
  from unsupported_hook_latched [where ms = odd_hooks and name = "''AfterFind''", OF h] h r o
  show ?thesis by simp
qed

section \<open>Table names\<close>

lemma literal_rule:
  "re \<noteq> ''([^s])s?$'' \<Longrightarrow> MatchString re s = ends_with s (butlast re)"
  "re \<noteq> ''([^s])s?$'' \<Longrightarrow> take 4 v \<noteq> ''${1}'' \<Longrightarrow> ends_with s (butlast re) \<Longrightarrow>
     ReplaceAllString re s v = take (length s - length (butlast re)) s @ v"
  by (simp_all add: MatchString_def ReplaceAllString_def find_match_def expand_def)

lemma take_last2:
  assumes "2 \<le> length s"
  shows "take (length s - 2) s @ [s ! (length s - 2), s ! (length s - 1)] = s"
proof -
  have "s = take (length s - 2) s @ drop (length s - 2) s" by simp
  moreover have "drop (length s - 2) s = [s ! (length s - 2), s ! (length s - 1)]"
  proof -
    have a: "drop (length s - 2) s = s ! (length s - 2) # drop (Suc (length s - 2)) s"
      using assms by (intro Cons_nth_drop_Suc[symmetric]) simp
    have b: "Suc (length s - 2) = length s - 1" using assms by simp
    have c: "drop (length s - 1) s = s ! (length s - 1) # drop (Suc (length s - 1)) s"
      using assms by (intro Cons_nth_drop_Suc[symmetric]) simp
    show ?thesis using a b c assms by simp
  qed
  ultimately show ?thesis by simp
qed

lemma take_last1:
  assumes "1 \<le> length s"
  shows "take (length s - 1) s @ [s ! (length s - 1)] = s"
  using assms by (metis One_nat_def Suc_le_lessD append_butlast_last_id butlast_conv_take last_conv_nth length_greater_0_conv)

lemma default_rule:
  assumes "\<not> ends_with s ''ss''"
  shows "(case find_match ''([^s])s?$'' s of None \<Rightarrow> s | Some (i, g1) \<Rightarrow> take i s @ expand ''${1}s'' g1)
           = (if s = [] \<or> last s = CHR ''s'' then s else s @ ''s'')"
proof (cases "2 \<le> length s \<and> s ! (length s - 2) \<noteq> CHR ''s'' \<and> s ! (length s - 1) = CHR ''s''")
  case True
  then have l: "last s = CHR ''s''" by (metis last_conv_nth length_0_conv not_numeral_le_zero)
  from True take_last2[of s] have "take (length s - 2) s @ [s ! (length s - 2)] @ ''s'' = s"
    by simp
  with True l show ?thesis by (simp add: find_match_def expand_def)
next
  case F: False
  show ?thesis
  proof (cases "1 \<le> length s \<and> s ! (length s - 1) \<noteq> CHR ''s''")
    case True
    then have l: "s \<noteq> [] \<and> last s \<noteq> CHR ''s''"
      by (metis One_nat_def last_conv_nth length_0_conv not_one_le_zero)
    from True take_last1[of s] have "take (length s - 1) s @ [s ! (length s - 1)] @ ''s'' = s @ ''s''"
      by simp
    with True F l show ?thesis by (simp add: find_match_def expand_def)
  next
    case False
    then have "s = [] \<or> last s = CHR ''s''"
      by (metis One_nat_def Suc_leI last_conv_nth length_greater_0_conv)
    with F False show ?thesis by (auto simp: find_match_def expand_def)
  qed
qed

lemma pluralize_by_rules: "pluralize s = plural_by_rules s"
proof -
  have d: "(case plural_loop [''([^s])s?$''] [''${1}s''] s of Some r \<Rightarrow> r | None \<Rightarrow> s)
      = (case find_match ''([^s])s?$'' s of None \<Rightarrow> s | Some (i, g1) \<Rightarrow> take i s @ expand ''${1}s'' g1)"
    by (auto simp: MatchString_def ReplaceAllString_def split: option.splits)
  show ?thesis
    unfolding pluralize_def plural_by_rules_def pluralMapKeys_def pluralMapValues_def suffix_rules_def
    using default_rule[of s] d
    by (simp add: literal_rule)
qed

text \<open>
  Claim C8, as amended. With no table-name override, no \<^verbatim>\<open>TableName\<close> method that
  yields a string, and singular-table naming not configured, \<^verbatim>\<open>TableName\<close> returns
  the snake-cased type name pluralised by the first matching rule of the ordered list
  ch\<rightarrow>ches, ss\<rightarrow>sses, sh\<rightarrow>shes, day\<rightarrow>days, y\<rightarrow>ies, x\<rightarrow>xes; when none matches, it
  appends \<open>s\<close> to a name that is not empty and does not end in \<open>s\<close>, and leaves any
  other name as it is. The snake-cased forms of Bench, Class, Dish, Monday, Category,
  Box and User give benches, classes, dishes, mondays, categories, boxes and users.
\<close>

theorem table_name_pluralized:
  assumes "Search scope = None \<or> search_TableName (the (Search scope)) = []"
      and "Scope_Value scope = Some v"
      and "table_data (fst (IndirectValue scope)) = Inr (RV dv a)"
      and "tn dv = None \<or> tn dv = Some TN_other \<or> tn dv = Some TN_none"
      and "Scope_db scope = None \<or>
           (\<exists>d p. Scope_db scope = Some d \<and> parent (handles w d) = Some p \<and>
                  \<not> singularTable (handles w p))"
  shows "TableName en tn scope w
           = Inr (plural_by_rules (ToSnake en (Type_Name (type_of dv))),
                  snd (IndirectValue scope), w) \<and>
         plural_by_rules ''bench'' = ''benches'' \<and>
         plural_by_rules ''class'' = ''classes'' \<and>
         plural_by_rules ''dish'' = ''dishes'' \<and>
         plural_by_rules ''monday'' = ''mondays'' \<and>
         plural_by_rules ''category'' = ''categories'' \<and>
         plural_by_rules ''box'' = ''boxes'' \<and>
         plural_by_rules ''user'' = ''users''"
proof -
  obtain data0 scope1 where iv: "IndirectValue scope = (data0, scope1)"
    by (cases "IndirectValue scope")
  have sd: "Scope_db scope1 = Scope_db scope"
    using iv by (auto simp: IndirectValue_def Let_def split: option.splits)
  have td: "table_data data0 = Inr (RV dv a)" using assms(3) iv by simp
  have "TableName en tn scope w
           = Inr (pluralize (ToSnake en (Type_Name (type_of dv))), scope1, w)"
    using assms(1,2,4,5) iv td sd
    by (auto simp: TableName_def Let_def split: option.splits tn_method.splits)
  then have A: "TableName en tn scope w
           = Inr (plural_by_rules (ToSnake en (Type_Name (type_of dv))),
                  snd (IndirectValue scope), w)"
    using iv by (simp add: pluralize_by_rules)
  have B: "plural_by_rules ''bench'' = ''benches''" "plural_by_rules ''class'' = ''classes''"
      "plural_by_rules ''dish'' = ''dishes''" "plural_by_rules ''monday'' = ''mondays''"
      "plural_by_rules ''category'' = ''categories''" "plural_by_rules ''box'' = ''boxes''"
      "plural_by_rules ''user'' = ''users''"
    by (simp_all add: plural_by_rules_def suffix_rules_def ends_with_def)
  from A B show ?thesis by simp
qed

text \<open>Witness of C8 as amended: the table of a \<^verbatim>\<open>*User\<close> is \<open>users\<close>.\<close>

theorem table_name_pluralized_witness:
  "Search (example_scope 1 (Some (PtrV User_t (Some (user ''1'' ''a''))))) = None \<and>
   table_data (fst (IndirectValue (example_scope 1 (Some (PtrV User_t (Some (user ''1'' ''a'')))))))
      = Inr (RV (user ''1'' ''a'') True) \<and>
   parent (handles example_world 1) = Some 0 \<and> \<not> singularTable (handles example_world 0) \<and>
   fst (projr (TableName example_env (\<lambda>v. None)
         (example_scope 1 (Some (PtrV User_t (Some (user ''1'' ''a''))))) example_world))
      = ''users''"
proof -
  let ?s = "example_scope 1 (Some (PtrV User_t (Some (user ''1'' ''a''))))"
  have h: "Search ?s = None \<or> search_TableName (the (Search ?s)) = []"
      "Scope_Value ?s = Some (PtrV User_t (Some (user ''1'' ''a'')))"
      "table_data (fst (IndirectValue ?s)) = Inr (RV (user ''1'' ''a'') True)"
      "(\<lambda>v. None) (user ''1'' ''a'') = None \<or> (\<lambda>v. None) (user ''1'' ''a'') = Some TN_other
         \<or> (\<lambda>v. None) (user ''1'' ''a'') = Some TN_none"
      "Scope_db ?s = None \<or>
           (\<exists>d p. Scope_db ?s = Some d \<and> parent (handles example_world d) = Some p \<and>
                  \<not> singularTable (handles example_world p))"
    by (simp_all add: example_scope_def NewScope_def example_world_def blank_DB_def
          IndirectValue_def Let_def table_data_def user_def)
  have n: "plural_by_rules (ToSnake example_env (Type_Name (type_of (user ''1'' ''a'')))) = ''users''"
    by (simp add: example_env_def example_ToSnake_def user_def plural_by_rules_def
          suffix_rules_def ends_with_def)
  have s: "Search ?s = None" "parent (handles example_world 1) = Some 0"
      "\<not> singularTable (handles example_world 0)"
    by (simp_all add: example_scope_def NewScope_def example_world_def blank_DB_def)
  from table_name_pluralized [where en = example_env and tn = "\<lambda>v. None" and w = example_world,
      OF h] h(3) n s
  show ?thesis by simp
qed

text \<open>
  Counterexample to C8 as stated: for a type \<open>News\<close> none of the six suffix rules
  matches \<open>news\<close>; the specification's default rule gives \<open>newss\<close>, the code
  returns \<open>news\<close>.
\<close>

theorem table_name_appends_s_counterexample:
  "fst (projr (TableName example_env (\<lambda>v. None) (example_scope 1 (Some news)) example_world))
      = ''news'' \<and>
   plural_spec (ToSnake example_env (Type_Name (type_of news))) = ''newss''"
  by (simp add: TableName_def example_scope_def NewScope_def example_world_def blank_DB_def
        IndirectValue_def Let_def table_data_def news_def example_env_def example_ToSnake_def
        pluralize_def pluralMapKeys_def pluralMapValues_def MatchString_def
        ReplaceAllString_def find_match_def ends_with_def expand_def
        plural_spec_def suffix_rules_def)

section \<open>Setting a field\<close>

text \<open>
  Claim C10. On a valid, addressable field whose address implements
  \<^verbatim>\<open>sql.Scanner\<close>, \<^verbatim>\<open>Field.Set\<close> calls \<^verbatim>\<open>Scan\<close> with the value it was given (the
  value inside, when it was given a \<^verbatim>\<open>reflect.Value\<close>) and returns nil, whatever
  \<^verbatim>\<open>Scan\<close> returned: the field holds what \<^verbatim>\<open>Scan\<close> left there.
\<close>

theorem scanner_errors_discarded:
  assumes "Field_Field field = RV cell True"
      and "Scanner en (type_of cell) = Some scan"
  shows "Field_Set en field (Plain v)
           = Inr (None, field\<lparr>Field_Field := RV (fst (scan cell v)) True,
                               IsBlank := isBlank en (RV (fst (scan cell v)) True)\<rparr>) \<and>
         Field_Set en field (Reflected (RV x b))
           = Inr (None, field\<lparr>Field_Field := RV (fst (scan cell (Some x))) True,
                               IsBlank := isBlank en (RV (fst (scan cell (Some x))) True)\<rparr>)"
  using assms by (simp add: Field_Set_def Let_def)

text \<open>Witness of C10: \<^verbatim>\<open>Scan\<close> returns an error, \<^verbatim>\<open>Field.Set\<close> returns nil.\<close>

theorem scanner_errors_discarded_witness:
  "Field_Field name_field = RV (zero NullString_t) True \<and>
   Scanner example_env (type_of (zero NullString_t)) = Some refusing_Scan \<and>
   snd (refusing_Scan (zero NullString_t) (Some (BasicV ''int'' ''7'')))
      = Some (ErrorString ''unsupported Scan'') \<and>
   fst (projr (Field_Set example_env name_field (Plain (Some (BasicV ''int'' ''7''))))) = None"
proof -
  have h: "Field_Field name_field = RV (zero NullString_t) True"
      "Scanner example_env (type_of (zero NullString_t)) = Some refusing_Scan"
    by (simp_all add: name_field_def example_env_def NullString_t_def)
  from scanner_errors_discarded [OF h, of "Some (BasicV ''int'' ''7'')"] h
  show ?thesis by (simp add: refusing_Scan_def)
qed

section \<open>Field discovery and the primary key\<close>

lemmas example_defs = example_scope_def NewScope_def example_world_def blank_DB_def IndirectValue_def Let_def
  account_def Account_t_def Profile_t_def reversing_env_def example_env_def account_scope_def
  example_ToSnake_def example_parseTagSetting_def Tag_Get_def IsExported_def setting_def
  insert_field_def has_field_def New_def pick_primary_def NullString_t_def
  Fields.simps fields_loop.simps fieldFromStruct.simps HasColumn.simps

lemma Fields_cached:
  "Scope_fields scope = Some m \<Longrightarrow> Fields en True scope w = Inr (m, scope, w)"
  by (simp add: Fields.simps)

lemma Fields_True_caches:
  "Fields en True scope w = Inr (m, scope1, w1) \<Longrightarrow> Scope_fields scope1 = Some m"
  by (auto simp: Fields.simps split: if_splits prod.splits sum.splits option.splits)

lemma Fields_False_frame:
  "Fields en False scope w = Inr (m, scope', w') \<Longrightarrow>
     scope' = snd (IndirectValue scope) \<and> fst m = brk w"
  by (auto simp: Fields.simps split: if_splits prod.splits sum.splits option.splits)

lemma IndirectValue_cache:
  "IndirectValue (scope\<lparr>Scope_fields := c\<rparr>)
     = (fst (IndirectValue scope), (snd (IndirectValue scope))\<lparr>Scope_fields := c\<rparr>)"
  "Scope_fields (snd (IndirectValue scope)) = Scope_fields scope"
  by (simp_all add: IndirectValue_def Let_def split: option.splits)

lemma New_cache: "New (scope\<lparr>Scope_fields := c\<rparr>) v = New scope v"
  by (simp add: New_def)

lemma fieldFromStruct_False_indep:
  "fieldFromStruct en (scope\<lparr>Scope_fields := c\<rparr>) f False w = fieldFromStruct en scope f False w"
proof -
  have a: "fst (IndirectValue (scope\<lparr>Scope_fields := c\<rparr>)) = fst (IndirectValue scope)"
    by (simp add: IndirectValue_cache)
  have b: "Scope_db (scope\<lparr>Scope_fields := c\<rparr>) = Scope_db scope" by simp
  show ?thesis
    unfolding fieldFromStruct.simps[of en "scope\<lparr>Scope_fields := c\<rparr>" f False w]
      fieldFromStruct.simps[of en scope f False w] a b New_cache if_False
    by (rule refl)
qed

lemma fields_loop_False_indep:
  "fields_loop en False (scope\<lparr>Scope_fields := c\<rparr>) fs acc w = fields_loop en False scope fs acc w"
proof (induction fs arbitrary: acc w)
  case Nil
  show ?case by (simp add: fields_loop.simps)
next
  case (Cons f fs)
  show ?case
    by (simp add: fields_loop.simps fieldFromStruct_False_indep IndirectValue_cache Cons
          split: sum.splits prod.splits)
qed

lemma Fields_False_indep:
  "Fields en False scope w = Inr (m, scope', w') \<Longrightarrow>
   Fields en False (scope\<lparr>Scope_fields := c\<rparr>) w = Inr (m, scope'\<lparr>Scope_fields := c\<rparr>, w')"
  by (auto simp: Fields.simps IndirectValue_cache fields_loop_False_indep
        split: if_splits prod.splits sum.splits option.splits)

lemma Fields_keeps_primary:
  "Fields en wr scope w = Inr (m, scope', w') \<Longrightarrow> primaryKeyField scope' = primaryKeyField scope"
  by (auto simp: Fields.simps IndirectValue_def Let_def
        split: if_splits prod.splits sum.splits option.splits)

lemma Kind_of_KSlice: "Kind_of iv = KSlice \<Longrightarrow> \<exists>t vs a. iv = RV (SliceV t vs) a"
  by (cases iv rule: Kind_of.cases) auto

lemma account_True:
  "\<exists>x. Fields reversing_env True account_scope example_world = Inr x"
  by (simp add: example_defs)

lemma account_False:
  "\<exists>x. Fields reversing_env False account_scope example_world = Inr x"
  by (simp add: example_defs)

lemma account_key:
  "key_scope account_scope = snd (IndirectValue account_scope)"
  by (simp add: key_scope_def example_defs)

text \<open>
  Claim C6. When field discovery with relation inference returns a mapping, the Scope
  holds that mapping, and a second discovery with relation inference on it, in any
  state of the store, returns the identical mapping (same identity, same entries) and
  changes nothing. Discovery with relation inference disabled leaves the cache of the
  Scope as it was, returns a mapping newly made by this call (its identity is the one
  the allocator hands out at the call), and returns the same whatever the cache holds.
\<close>

theorem fields_cache:
  assumes "Fields en True scope w = Inr (m, scope1, w1)"
      and "Fields en False scope0 w0 = Inr (m0, scope0', w0')"
  shows "Scope_fields scope1 = Some m \<and>
         Fields en True scope1 w2 = Inr (m, scope1, w2) \<and>
         Scope_fields scope0' = Scope_fields scope0 \<and> fst m0 = brk w0 \<and>
         Fields en False (scope0\<lparr>Scope_fields := c\<rparr>) w0
           = Inr (m0, scope0'\<lparr>Scope_fields := c\<rparr>, w0')"
  using Fields_True_caches[OF assms(1)] Fields_cached[of scope1 m en w2]
    Fields_False_frame[OF assms(2)] Fields_False_indep[OF assms(2), of c]
  by (simp add: IndirectValue_cache)

text \<open>
  Witness of C6, on the account: the second discovery with relations returns the
  mapping of the first; the discovery without relations leaves the empty cache empty,
  its mapping has the identity drawn at the call, and a second discovery without
  relations returns a mapping of another identity.
\<close>

theorem fields_cache_witness:
  "Fields reversing_env True account_scope example_world
      = Inr (projr (Fields reversing_env True account_scope example_world)) \<and>
   Fields reversing_env False account_scope example_world
      = Inr (projr (Fields reversing_env False account_scope example_world)) \<and>
   Fields reversing_env True
      (fst (snd (projr (Fields reversing_env True account_scope example_world)))) example_world
      = Inr (fst (projr (Fields reversing_env True account_scope example_world)),
             fst (snd (projr (Fields reversing_env True account_scope example_world))),
             example_world) \<and>
   Scope_fields (fst (snd (projr (Fields reversing_env False account_scope example_world))))
      = Scope_fields account_scope \<and>
   fst (fst (projr (Fields reversing_env False account_scope example_world))) = brk example_world \<and>
   fst (fst (projr (Fields reversing_env False
        (fst (snd (projr (Fields reversing_env False account_scope example_world))))
        (snd (snd (projr (Fields reversing_env False account_scope example_world)))))))
      \<noteq> fst (fst (projr (Fields reversing_env False account_scope example_world)))"
proof -
  from account_True obtain m s w where
    t: "Fields reversing_env True account_scope example_world = Inr (m, s, w)"
    by (metis prod_cases3)
  from account_False obtain m0 s0 w0 where
    f: "Fields reversing_env False account_scope example_world = Inr (m0, s0, w0)"
    by (metis prod_cases3)
  have d: "fst (fst (projr (Fields reversing_env False
        (fst (snd (projr (Fields reversing_env False account_scope example_world))))
        (snd (snd (projr (Fields reversing_env False account_scope example_world)))))))
      \<noteq> fst (fst (projr (Fields reversing_env False account_scope example_world)))"
    by (simp add: example_defs)
  from fields_cache [OF t f, of example_world None] t f d show ?thesis by simp
qed

text \<open>
  Claim C3, as amended. On first use (no primary key cached) \<^verbatim>\<open>PrimaryKeyField\<close>
  runs field discovery with relation inference (\<^verbatim>\<open>Fields()\<close> without argument) on a
  new Scope over a zero element when the target is a collection, and on the Scope
  itself otherwise, which thereby caches its field mapping. It returns the first entry
  flagged primary key in the order in which \<^verbatim>\<open>range\<close> visits the mapping, caches it
  on the Scope, and returns none exactly when no entry is flagged; a cached primary
  key is returned as it is.
\<close>

theorem primary_key_field:
  assumes "primaryKeyField scope = None"
      and "Fields en True (key_scope scope) w = Inr (m, s', w1)"
      and "set (range_order en (snd m)) = set (snd m)"
  shows "PrimaryKeyField en scope w
           = Inr (map_option snd (find (\<lambda>e. IsPrimaryKey (snd e)) (range_order en (snd m))),
                  (if Kind_of (fst (IndirectValue scope)) = KSlice
                   then snd (IndirectValue scope) else s')
                    \<lparr>primaryKeyField :=
                       map_option snd (find (\<lambda>e. IsPrimaryKey (snd e)) (range_order en (snd m)))\<rparr>,
                  w1) \<and>
         Scope_fields s' = Some m \<and>
         (find (\<lambda>e. IsPrimaryKey (snd e)) (range_order en (snd m)) = None
            \<longleftrightarrow> (\<forall>e\<in>set (snd m). \<not> IsPrimaryKey (snd e))) \<and>
         PrimaryKeyField en (scope\<lparr>primaryKeyField := Some f\<rparr>) w
           = Inr (Some f, scope\<lparr>primaryKeyField := Some f\<rparr>, w)"
proof -
  obtain iv scope1 where iv: "IndirectValue scope = (iv, scope1)" by (cases "IndirectValue scope")
  have p1: "primaryKeyField scope1 = None"
    using iv assms(1) by (auto simp: IndirectValue_def Let_def split: option.splits)
  let ?pk = "map_option snd (find (\<lambda>e. IsPrimaryKey (snd e)) (range_order en (snd m)))"
  have A: "PrimaryKeyField en scope w
           = Inr (?pk, (if Kind_of (fst (IndirectValue scope)) = KSlice
                   then snd (IndirectValue scope) else s')\<lparr>primaryKeyField := ?pk\<rparr>, w1)"
  proof (cases "Kind_of iv = KSlice")
    case True
    then obtain t vs a where v: "iv = RV (SliceV t vs) a" using Kind_of_KSlice by blast
    have k: "key_scope scope = New scope1 (Some (zero t))" using iv v by (simp add: key_scope_def)
    show ?thesis
      using assms(1,2) iv v k p1
      by (auto simp: PrimaryKeyField_def pick_primary_def split: option.splits)
  next
    case False
    have k: "key_scope scope = scope1"
      using iv False by (auto simp: key_scope_def split: rvalue.splits gvalue.splits)
    have p2: "primaryKeyField s' = None"
      using Fields_keeps_primary[OF assms(2)] k p1 by simp
    show ?thesis
      using assms(1,2) iv False k p2
      by (auto simp: PrimaryKeyField_def pick_primary_def split: option.splits)
  qed
  have B: "Scope_fields s' = Some m" by (rule Fields_True_caches[OF assms(2)])
  have C: "find (\<lambda>e. IsPrimaryKey (snd e)) (range_order en (snd m)) = None
            \<longleftrightarrow> (\<forall>e\<in>set (snd m). \<not> IsPrimaryKey (snd e))"
    using assms(3) by (auto simp: find_None_iff)
  have D: "PrimaryKeyField en (scope\<lparr>primaryKeyField := Some f\<rparr>) w
           = Inr (Some f, scope\<lparr>primaryKeyField := Some f\<rparr>, w)"
    by (simp add: PrimaryKeyField_def)
  from A B C D show ?thesis by blast
qed

text \<open>
  Witness of C3 as amended: on the account, with a runtime that visits the mapping
  last to first, the primary key returned and cached is \<open>Key\<close>.
\<close>

theorem primary_key_field_witness:
  "primaryKeyField account_scope = None \<and>
   Fields reversing_env True (key_scope account_scope) example_world
      = Inr (projr (Fields reversing_env True (key_scope account_scope) example_world)) \<and>
   map_option Name (fst (projr (PrimaryKeyField reversing_env account_scope example_world)))
      = Some ''Key'' \<and>
   map_option Name (primaryKeyField (fst (snd (projr
        (PrimaryKeyField reversing_env account_scope example_world))))) = Some ''Key''"
proof -
  have p: "primaryKeyField account_scope = None" by (simp add: example_defs)
  have "\<exists>x. Fields reversing_env True (key_scope account_scope) example_world = Inr x"
    unfolding account_key by (simp add: example_defs)
  then obtain m s w where
    t: "Fields reversing_env True (key_scope account_scope) example_world = Inr (m, s, w)"
    by (metis prod_cases3)
  have r: "set (range_order reversing_env (snd m)) = set (snd m)"
    by (simp add: reversing_env_def)
  have n: "map_option Name (map_option snd (find (\<lambda>e. IsPrimaryKey (snd e))
             (range_order reversing_env (snd m)))) = Some ''Key''"
    using t unfolding account_key by (auto simp: example_defs)
  from primary_key_field [OF p t r] p t n show ?thesis by simp
qed

text \<open>
  Counterexample to C3 as stated, on the account. The fields \<open>Code\<close> and \<open>Key\<close>
  are both tagged primary key, \<open>Code\<close> is declared first, and \<^verbatim>\<open>PrimaryKeyField\<close>
  returns \<open>Key\<close>. After the call the Scope caches a field mapping in which the
  field \<open>Profile\<close> carries the relation \<open>has_one\<close>, whereas discovery without
  relations gives \<open>Profile\<close> no relation and caches nothing.
\<close>

theorem primary_key_counterexample:
  "map_option Name (fst (projr (PrimaryKeyField reversing_env account_scope example_world)))
      = Some ''Key'' \<and>
   map_option (map fst \<circ> snd)
      (Scope_fields (fst (snd (projr (PrimaryKeyField reversing_env account_scope example_world)))))
      = Some [''code'', ''key'', ''profile''] \<and>
   map_option (map_option Kind \<circ> Relationship)
      (map_of (snd (the (Scope_fields (fst (snd (projr
          (PrimaryKeyField reversing_env account_scope example_world))))))) ''profile'')
      = Some (Some ''has_one'') \<and>
   map_option Relationship
      (map_of (snd (fst (projr (Fields reversing_env False account_scope example_world)))) ''profile'')
      = Some None \<and>
   Scope_fields (fst (snd (projr (Fields reversing_env False account_scope example_world)))) = None"
  by (simp add: PrimaryKeyField_def example_defs)

end
